theory Spec2Isabelle
  imports Main "HOL-Library.Sublist" "HOL-Library.Char_ord" "HOL-Library.List_Lexorder"
    "HOL-Library.Multiset"
begin

section \<open>Go standard library functions used by the resource\<close>

text \<open>
  A Go string is a sequence of bytes, modelled as \<^typ>\<open>string\<close> (a list of 8-bit
  characters). Comparison of Go strings is bytewise lexicographic, which is the order that
  \<open>List_Lexorder\<close> and \<open>Char_ord\<close> put on \<^typ>\<open>string\<close>.
\<close>

text \<open>\<open>strings.Split(s, sep)\<close> for a separator of one byte: one piece more than there are
  separators, so the empty string splits into one empty piece.\<close>

primrec strings_Split :: "string \<Rightarrow> char \<Rightarrow> string list" where
  "strings_Split [] sep = [[]]"
| "strings_Split (x # xs) sep =
     (if x = sep then [] # strings_Split xs sep
      else (case strings_Split xs sep of
              p # ps \<Rightarrow> (x # p) # ps
            | [] \<Rightarrow> [[x]]))"

text \<open>\<open>strings.Join(elems, sep)\<close>.\<close>

fun strings_Join :: "string list \<Rightarrow> string \<Rightarrow> string" where
  "strings_Join [] sep = []"
| "strings_Join [x] sep = x"
| "strings_Join (x # y # ys) sep = x @ sep @ strings_Join (y # ys) sep"

text \<open>\<open>strings.Contains(s, substr)\<close>: \<open>substr\<close> occurs in \<open>s\<close> as a contiguous run.\<close>

fun strings_Contains :: "string \<Rightarrow> string \<Rightarrow> bool" where
  "strings_Contains [] substr = (substr = [])"
| "strings_Contains (x # xs) substr =
     (prefix substr (x # xs) \<or> strings_Contains xs substr)"

text \<open>
  The UTF-8 encodings of the code points for which \<open>unicode.IsSpace\<close> holds: the six ASCII
  ones, U+0085, U+00A0, U+1680, U+2000 to U+200A, U+2028, U+2029, U+202F, U+205F, U+3000.
\<close>

definition white_space :: "string list" where
  "white_space =
     [[CHR 0x09], [CHR 0x0A], [CHR 0x0B], [CHR 0x0C], [CHR 0x0D], [CHR 0x20],
      [CHR 0xC2, CHR 0x85], [CHR 0xC2, CHR 0xA0],
      [CHR 0xE1, CHR 0x9A, CHR 0x80],
      [CHR 0xE2, CHR 0x80, CHR 0x80], [CHR 0xE2, CHR 0x80, CHR 0x81],
      [CHR 0xE2, CHR 0x80, CHR 0x82], [CHR 0xE2, CHR 0x80, CHR 0x83],
      [CHR 0xE2, CHR 0x80, CHR 0x84], [CHR 0xE2, CHR 0x80, CHR 0x85],
      [CHR 0xE2, CHR 0x80, CHR 0x86], [CHR 0xE2, CHR 0x80, CHR 0x87],
      [CHR 0xE2, CHR 0x80, CHR 0x88], [CHR 0xE2, CHR 0x80, CHR 0x89],
      [CHR 0xE2, CHR 0x80, CHR 0x8A],
      [CHR 0xE2, CHR 0x80, CHR 0xA8], [CHR 0xE2, CHR 0x80, CHR 0xA9],
      [CHR 0xE2, CHR 0x80, CHR 0xAF], [CHR 0xE2, CHR 0x81, CHR 0x9F],
      [CHR 0xE3, CHR 0x80, CHR 0x80]]"

text \<open>
  \<open>strip_leading es s\<close> removes from the front of \<open>s\<close>, as long as there is one, a byte
  sequence of \<open>es\<close>. With \<^const>\<open>white_space\<close> it is \<open>strings.TrimLeftFunc(s,
  unicode.IsSpace)\<close>: a rune that does not decode, or is no space, stops the scan.
\<close>

function strip_leading :: "string list \<Rightarrow> string \<Rightarrow> string" where
  "strip_leading es s =
     (case find (\<lambda>e. e \<noteq> [] \<and> prefix e s) es of
        None \<Rightarrow> s
      | Some e \<Rightarrow> strip_leading es (drop (length e) s))"
  by pat_completeness auto
termination
proof (relation "measure (\<lambda>(es, s). length s)")
  show "wf (measure (\<lambda>(es, s). length s))" by simp
next
  fix es :: "string list" and s e :: string
  assume "find (\<lambda>e. e \<noteq> [] \<and> prefix e s) es = Some e"
  then have "e \<noteq> []" and "prefix e s"
    by (auto simp: find_Some_iff)
  then have "s \<noteq> []" and "0 < length e"
    by auto
  then show "((es, drop (length e) s), (es, s)) \<in> measure (\<lambda>(es, s). length s)"
    by simp
qed

declare strip_leading.simps [simp del]

text \<open>
  \<open>strings.TrimSpace(s)\<close>: leading white space is cut first, then trailing white space
  (the scan from the end decodes the last rune, which is a space exactly when the string
  ends with one of the encodings above).
\<close>

definition strings_TrimSpace :: "string \<Rightarrow> string" where
  "strings_TrimSpace s =
     rev (strip_leading (map rev white_space) (rev (strip_leading white_space s)))"

text \<open>\<open>sort.Strings\<close> puts a slice in ascending bytewise order.\<close>

definition sort_Strings :: "string list \<Rightarrow> string list" where
  "sort_Strings xs = sort xs"

text \<open>\<open>strconv.ParseBool\<close>: the value and whether the text was accepted; a text that is not
  accepted gives the value \<open>false\<close> together with an error.\<close>

definition strconv_ParseBool :: "string \<Rightarrow> bool \<times> bool" where
  "strconv_ParseBool str =
     (if str \<in> set [''1'', ''t'', ''T'', ''TRUE'', ''true'', ''True''] then (True, True)
      else if str \<in> set [''0'', ''f'', ''F'', ''FALSE'', ''false'', ''False''] then (False, True)
      else (False, False))"

text \<open>
  The first submatch of the regular expression \<open>(.*)\<close> on \<open>s\<close>
  (\<open>regexp.MustCompile(`(.*)`).FindStringSubmatch(s)[1]\<close>). The expression matches at
  offset 0 of every string, so the result always has the index 1; the dot of Go's regexp
  matches every character but the line feed, and the star is greedy.
\<close>

definition FindStringSubmatch_1 :: "string \<Rightarrow> string" where
  "FindStringSubmatch_1 s = takeWhile (\<lambda>c. c \<noteq> CHR 0x0A) s"

section \<open>Normalising the list of actions\<close>

text \<open>The first loop of \<open>normalizeActionsString\<close>: every element of the slice is
  replaced, in place, by its trimmed text.\<close>

function trim_range :: "nat \<Rightarrow> string list \<Rightarrow> string list" where
  "trim_range i actionList =
     (if i < length actionList
      then trim_range (Suc i) (actionList[i := strings_TrimSpace (actionList ! i)])
      else actionList)"
  by pat_completeness auto
termination
  by (relation "measure (\<lambda>(i, actionList). length actionList - i)") auto

declare trim_range.simps [simp del]

text \<open>The second loop: the non-empty elements are appended to \<open>cleanActions\<close>.\<close>

fun clean_range :: "string list \<Rightarrow> string list \<Rightarrow> string list" where
  "clean_range [] cleanActions = cleanActions"
| "clean_range (action # rest) cleanActions =
     (if action \<noteq> [] then clean_range rest (cleanActions @ [action])
      else clean_range rest cleanActions)"

definition normalizeActionsString :: "string \<Rightarrow> string" where
  "normalizeActionsString actions =
     (if actions = [] then []
      else let actionList = trim_range 0 (strings_Split actions CHR '','');
               cleanActions = clean_range actionList []
           in strings_Join (sort_Strings cleanActions) '','')"

definition suppressActionsDiff :: "string \<Rightarrow> string \<Rightarrow> bool" where
  "suppressActionsDiff old new = (normalizeActionsString old = normalizeActionsString new)"

text \<open>
  The contract of the normaliser in the words of the specification: split on commas, trim
  each element, discard the empty ones, sort ascending, join with commas.
\<close>

definition action_list :: "string \<Rightarrow> string list" where
  "action_list raw =
     filter (\<lambda>a. a \<noteq> []) (map strings_TrimSpace (strings_Split raw CHR '',''))"

definition normalize_spec :: "string \<Rightarrow> string" where
  "normalize_spec raw = strings_Join (sort (action_list raw)) '',''"

text \<open>The six ASCII white space characters.\<close>

definition ascii_space :: "char set" where
  "ascii_space = {CHR 0x09, CHR 0x0A, CHR 0x0B, CHR 0x0C, CHR 0x0D, CHR 0x20}"

text \<open>\<open>suppressDefault(defaultValue)\<close> applied to the old and the new value.\<close>

definition suppressDefault :: "string \<Rightarrow> string \<Rightarrow> string \<Rightarrow> bool" where
  "suppressDefault defaultValue old new = (old = defaultValue \<and> new = [])"


section \<open>The data of the resource\<close>

text \<open>
  A value of a scalar schema type: \<open>TypeString\<close>, \<open>TypeInt\<close>, \<open>TypeBool\<close> or
  \<open>TypeFloat\<close>. The one \<open>float64\<close> field is only passed on, so it is carried as its bit
  pattern.
\<close>

datatype prim = PString string | PInt int | PBool bool | PFloat nat

datatype ty = TypeString | TypeInt | TypeBool | TypeFloat

fun zero :: "ty \<Rightarrow> prim" where
  "zero TypeString = PString []"
| "zero TypeInt = PInt 0"
| "zero TypeBool = PBool False"
| "zero TypeFloat = PFloat 0"

text \<open>
  Modelled from the spec: \<open>models.ACLObject\<close> is declared in the provider's \<open>models\<close>
  package, outside this file. The ACL scope of the specification has an owner, an app and
  a sharing, which are the three fields this resource reads.
\<close>

record ACLObject =
  Owner :: string
  App :: string
  Sharing :: string

text \<open>
  \<open>schema.ResourceData\<close>: the identifier, the scalar fields that have a value, and the
  blocks of the \<open>acl\<close> list (of a type \<open>'b\<close> that only \<open>getACLConfig\<close> and
  \<open>flattenACL\<close> look into). A key without a value reads as the zero value of its type.
\<close>

record 'b ResourceData =
  rd_id :: string
  rd_fields :: "string \<rightharpoonup> prim"
  rd_acl :: "'b list"

text \<open>
  \<open>d.Get(key).(string)\<close> and its siblings. The schema stores under a key only values of
  the key's type, so the type assertion of the source does not fail; the model reads the
  zero value wherever the key holds nothing of that type.
\<close>

definition d_Get_string :: "'b ResourceData \<Rightarrow> string \<Rightarrow> string" where
  "d_Get_string d key = (case rd_fields d key of Some (PString s) \<Rightarrow> s | _ \<Rightarrow> [])"

definition d_Get_int :: "'b ResourceData \<Rightarrow> string \<Rightarrow> int" where
  "d_Get_int d key = (case rd_fields d key of Some (PInt n) \<Rightarrow> n | _ \<Rightarrow> 0)"

definition d_Get_bool :: "'b ResourceData \<Rightarrow> string \<Rightarrow> bool" where
  "d_Get_bool d key = (case rd_fields d key of Some (PBool b) \<Rightarrow> b | _ \<Rightarrow> False)"

definition d_Get_float :: "'b ResourceData \<Rightarrow> string \<Rightarrow> nat" where
  "d_Get_float d key = (case rd_fields d key of Some (PFloat x) \<Rightarrow> x | _ \<Rightarrow> 0)"

fun d_Get :: "'b ResourceData \<Rightarrow> string \<Rightarrow> ty \<Rightarrow> prim" where
  "d_Get d key TypeString = PString (d_Get_string d key)"
| "d_Get d key TypeInt = PInt (d_Get_int d key)"
| "d_Get d key TypeBool = PBool (d_Get_bool d key)"
| "d_Get d key TypeFloat = PFloat (d_Get_float d key)"

text \<open>
  \<open>d.GetOk(key)\<close>: the value, and whether the key has been set to a value that is not the
  zero value of its type.
\<close>

definition d_GetOk_int :: "'b ResourceData \<Rightarrow> string \<Rightarrow> int \<times> bool" where
  "d_GetOk_int d key = (d_Get_int d key, d_Get_int d key \<noteq> 0)"

definition d_GetOk_acl :: "'b ResourceData \<Rightarrow> 'b list \<times> bool" where
  "d_GetOk_acl d = (rd_acl d, rd_acl d \<noteq> [])"

text \<open>\<open>d.Set(key, value)\<close> with a value of the key's schema type, which returns no error.\<close>

definition d_Set :: "'b ResourceData \<Rightarrow> string \<Rightarrow> prim \<Rightarrow> 'b ResourceData" where
  "d_Set d key v = d\<lparr>rd_fields := (rd_fields d)(key \<mapsto> v)\<rparr>"

definition d_Set_acl :: "'b ResourceData \<Rightarrow> 'b list \<Rightarrow> 'b ResourceData" where
  "d_Set_acl d blocks = d\<lparr>rd_acl := blocks\<rparr>"

definition d_SetId :: "'b ResourceData \<Rightarrow> string \<Rightarrow> 'b ResourceData" where
  "d_SetId d v = d\<lparr>rd_id := v\<rparr>"

text \<open>
  Modelled from the spec: \<open>models.SavedSearchObject\<close> is declared in the \<open>models\<close>
  package, outside this file; the specification treats its fields as a bag of named
  values. The five fields that this resource computes or tests are named here;
  \<open>Plain\<close> holds the other fields under their Go names, a field that was never filled
  having the zero value of its type.
\<close>

record SavedSearchObject =
  Actions :: string
  ActionWebhook :: bool
  ActionWebhookParamPriority :: int
  ActionJiraServiceDeskParamJiraSummary :: string
  ActionJiraServiceDeskParamJiraDescription :: string
  Plain :: "string \<rightharpoonup> prim"

definition field_value :: "SavedSearchObject \<Rightarrow> string \<Rightarrow> ty \<Rightarrow> prim" where
  "field_value c field t =
     (if field = ''Actions'' then PString (Actions c)
      else if field = ''ActionWebhook'' then PBool (ActionWebhook c)
      else if field = ''ActionWebhookParamPriority'' then PInt (ActionWebhookParamPriority c)
      else if field = ''ActionJiraServiceDeskParamJiraSummary''
        then PString (ActionJiraServiceDeskParamJiraSummary c)
      else if field = ''ActionJiraServiceDeskParamJiraDescription''
        then PString (ActionJiraServiceDeskParamJiraDescription c)
      else (case Plain c field of Some v \<Rightarrow> v | None \<Rightarrow> zero t))"

text \<open>
  Modelled from the spec: the entries and messages of a response
  (\<open>models.SavedSearchesEntry\<close>, \<open>models.ErrorMessage\<close>) are declared in the \<open>models\<close>
  package. An entry has a name, a content and an ACL; a message has a text.
\<close>

record SavedSearchesEntry =
  Name :: string
  ACL :: ACLObject
  Content :: SavedSearchObject

record ErrorMessage =
  Text :: string

text \<open>
  Modelled from the spec: what a response body decodes to, the \<open>entry\<close> array read by
  \<open>models.SavedSearchesResponse\<close> and the \<open>messages\<close> array read by it and by
  \<open>models.InputsUDPResponse\<close>. A body is the JSON value \<open>null\<close>, or a JSON text with
  these two arrays, or it is empty or no JSON at all.
\<close>

record Envelope =
  Entry :: "SavedSearchesEntry list"
  Messages :: "ErrorMessage list"

datatype body = NoJSON | JSONNull | JSON Envelope

record Response =
  StatusCode :: int
  Body :: body

text \<open>
  \<open>json.NewDecoder(body).Decode(response)\<close> with \<open>response\<close> a pointer to a zero
  struct, as the error branches call it: the source drops the decoder's error, and a body
  that does not decode, like the value \<open>null\<close>, leaves the struct at its zero value.
\<close>

definition Decode :: "body \<Rightarrow> Envelope" where
  "Decode b = (case b of JSON e \<Rightarrow> e | _ \<Rightarrow> \<lparr>Entry = [], Messages = []\<rparr>)"

text \<open>
  \<open>json.NewDecoder(body).Decode(&response)\<close>, as the branch for the status 200 and 201
  calls it, with the address of the pointer: the value \<open>null\<close> sets the pointer itself
  to \<open>nil\<close> (\<open>None\<close>); every other body fills, or leaves, the struct it points to.
\<close>

definition Decode_pointer :: "body \<Rightarrow> Envelope option" where
  "Decode_pointer b = (case b of JSONNull \<Rightarrow> None | _ \<Rightarrow> Some (Decode b))"

text \<open>The errors this resource returns: one handed on from the client, and the three it
  builds itself.\<close>

datatype error =
    ClientError string
  | UpdateAclError error ACLObject
  | UnableToFind string
  | errors_New string

text \<open>A Go call either returns or panics.\<close>

datatype 'a go = Returns 'a | Panics

text \<open>
  The remote calls, as they are recorded, and the client that answers them. The client is
  an interface of the provider implemented outside this file: its methods are taken as
  parameters, a method that returns an error being \<open>Some\<close> or \<open>Inl\<close> of it.
\<close>

datatype call =
    CreateSavedSearches_call string string string SavedSearchObject
  | ReadSavedSearches_call string string string
  | UpdateSavedSearches_call string string string SavedSearchObject
  | UpdateAcl_call string string string ACLObject string string
  | DeleteSavedSearches_call string string string

record Client =
  CreateSavedSearches :: "string \<Rightarrow> string \<Rightarrow> string \<Rightarrow> SavedSearchObject \<Rightarrow> error option"
  ReadSavedSearches :: "string \<Rightarrow> string \<Rightarrow> string \<Rightarrow> error + Response"
  UpdateSavedSearches :: "string \<Rightarrow> string \<Rightarrow> string \<Rightarrow> SavedSearchObject \<Rightarrow> error option"
  UpdateAcl :: "string \<Rightarrow> string \<Rightarrow> string \<Rightarrow> ACLObject \<Rightarrow> string \<Rightarrow> string \<Rightarrow> error option"
  DeleteSavedSearches :: "string \<Rightarrow> string \<Rightarrow> string \<Rightarrow> error + Response"

text \<open>The owner under which a recorded call updates the entity or its permissions.\<close>

fun update_owner :: "call \<Rightarrow> string option" where
  "update_owner (UpdateSavedSearches_call name owner app config) = Some owner"
| "update_owner (UpdateAcl_call owner app name acl r1 r2) = Some owner"
| "update_owner _ = None"

fun is_UpdateAcl :: "call \<Rightarrow> bool" where
  "is_UpdateAcl (UpdateAcl_call owner app name acl r1 r2) = True"
| "is_UpdateAcl _ = False"

text \<open>
  \<open>getACLConfig\<close> and \<open>flattenACL\<close> are defined in another file of the provider; they
  are taken as parameters, so that every result holds for whatever they compute.
\<close>

record 'b acl_helpers =
  getACLConfig :: "'b list \<Rightarrow> ACLObject"
  flattenACL :: "ACLObject \<Rightarrow> 'b list"

text \<open>
  A run of a lifecycle function: the remote calls it issued, in order, the resource data
  it leaves, and what it returned (\<open>Returns None\<close> is the \<open>nil\<close> error).
\<close>

record 'b run =
  calls :: "call list"
  rd :: "'b ResourceData"
  returned :: "error option go"

definition remote :: "call \<Rightarrow> error option \<Rightarrow> 'b ResourceData \<Rightarrow> 'b run" where
  "remote c err d = \<lparr>calls = [c], rd = d, returned = Returns err\<rparr>"

text \<open>Sequencing: the rest runs only after a step that returned \<open>nil\<close>.\<close>

definition and_then :: "'b run \<Rightarrow> ('b ResourceData \<Rightarrow> 'b run) \<Rightarrow> 'b run" where
  "and_then r f =
     (case returned r of
        Returns None \<Rightarrow> (let r' = f (rd r) in r'\<lparr>calls := calls r @ calls r'\<rparr>)
      | _ \<Rightarrow> r)"

section \<open>The webhook priority\<close>

definition calculateWebhookPriority :: "string \<Rightarrow> string \<Rightarrow> int" where
  "calculateWebhookPriority severity precision =
     (if severity = ''Critical'' then
        (if precision = ''High'' then 4
         else if precision = ''Medium'' then 3
         else if precision = ''Low'' then 2
         else 1)
      else if severity = ''High'' then
        (if precision = ''High'' \<or> precision = ''Medium'' then 3
         else if precision = ''Low'' then 2
         else 1)
      else if severity = ''Medium'' then
        (if precision = ''High'' \<or> precision = ''Medium'' then 2
         else if precision = ''Low'' then 1
         else 1)
      else if severity = ''Low'' then 1
      else 1)"

definition getCalculatedPriority :: "'b ResourceData \<Rightarrow> int" where
  "getCalculatedPriority d =
     (case d_GetOk_int d ''action_webhook_param_priority'' of
        (priority, True) \<Rightarrow> priority
      | (_, False) \<Rightarrow>
          (let severity = d_Get_string d ''severity'';
               precision = d_Get_string d ''precision''
           in if severity \<noteq> [] \<and> precision \<noteq> []
              then calculateWebhookPriority severity precision
              else 1))"

section \<open>The schema upgrade\<close>

text \<open>
  \<open>resourceAlertTrackStateUpgradeV0\<close>. The raw state maps a key to a value of any type;
  the type assertion \<open>.(string)\<close> panics on an absent key and on a value that is no string.
  The error of \<open>strconv.ParseBool\<close> is dropped, and the returned error is always \<open>nil\<close>.
\<close>

definition resourceAlertTrackStateUpgradeV0 ::
    "(string \<rightharpoonup> prim) \<Rightarrow> ((string \<rightharpoonup> prim) \<times> error option) go" where
  "resourceAlertTrackStateUpgradeV0 rawState =
     (case rawState ''alert_track'' of
        Some (PString s) \<Rightarrow>
          Returns (rawState(''alert_track'' \<mapsto> PBool (fst (strconv_ParseBool s))), None)
      | _ \<Rightarrow> Panics)"

section \<open>The request payload\<close>

text \<open>The fields of \<open>getSavedSearchesConfig\<close> that are read with a plain \<open>d.Get\<close>: the Go
  field, the key and the asserted type, in the order of the source.\<close>

definition config_fields :: "(string \<times> string \<times> ty) list" where
  "config_fields =
     [(''ActionEmail'', ''action_email'', TypeBool),
      (''ActionEmailAuthPassword'', ''action_email_auth_password'', TypeString),
      (''ActionEmailAuthUsername'', ''action_email_auth_username'', TypeString),
      (''ActionEmailBCC'', ''action_email_bcc'', TypeString),
      (''ActionEmailCC'', ''action_email_cc'', TypeString),
      (''ActionEmailFormat'', ''action_email_format'', TypeString),
      (''ActionEmailFrom'', ''action_email_from'', TypeString),
      (''ActionEmailHostname'', ''action_email_hostname'', TypeString),
      (''ActionEmailIncludeResultsLink'', ''action_email_include_results_link'', TypeInt),
      (''ActionEmailIncludeSearch'', ''action_email_include_search'', TypeInt),
      (''ActionEmailIncludeTrigger'', ''action_email_include_trigger'', TypeInt),
      (''ActionEmailIncludeTriggerTime'', ''action_email_include_trigger_time'', TypeInt),
      (''ActionEmailIncludeViewLink'', ''action_email_include_view_link'', TypeInt),
      (''ActionEmailInline'', ''action_email_inline'', TypeBool),
      (''ActionEmailMailserver'', ''action_email_mailserver'', TypeString),
      (''ActionEmailMaxResults'', ''action_email_max_results'', TypeInt),
      (''ActionEmailMaxTime'', ''action_email_max_time'', TypeString),
      (''ActionEmailMessageAlert'', ''action_email_message_alert'', TypeString),
      (''ActionEmailMessageReport'', ''action_email_message_report'', TypeString),
      (''ActionEmailPDFView'', ''action_email_pdfview'', TypeString),
      (''ActionEmailPreprocessResults'', ''action_email_preprocess_results'', TypeString),
      (''ActionEmailReportCIDFontList'', ''action_email_report_cid_font_list'', TypeString),
      (''ActionEmailReportIncludeSplunkLogo'', ''action_email_report_include_splunk_logo'', TypeBool),
      (''ActionEmailReportPaperOrientation'', ''action_email_report_paper_orientation'', TypeString),
      (''ActionEmailReportPaperSize'', ''action_email_report_paper_size'', TypeString),
      (''ActionEmailReportServerEnabled'', ''action_email_report_server_enabled'', TypeBool),
      (''ActionEmailReportServerURL'', ''action_email_report_server_url'', TypeString),
      (''ActionEmailSendCSV'', ''action_email_send_csv'', TypeInt),
      (''ActionEmailSendPDF'', ''action_email_send_pdf'', TypeBool),
      (''ActionEmailSendResults'', ''action_email_send_results'', TypeBool),
      (''ActionEmailAllowEmptyAttachment'', ''action_email_allow_empty_attachment'', TypeInt),
      (''ActionEmailSubject'', ''action_email_subject'', TypeString),
      (''ActionEmailTo'', ''action_email_to'', TypeString),
      (''ActionEmailTrackAlert'', ''action_email_track_alert'', TypeBool),
      (''ActionEmailTTL'', ''action_email_ttl'', TypeString),
      (''ActionEmailUseSSL'', ''action_email_use_ssl'', TypeBool),
      (''ActionEmailUseTLS'', ''action_email_use_tls'', TypeBool),
      (''ActionEmailWidthSortColumns'', ''action_email_width_sort_columns'', TypeBool),
      (''ActionPagerdutyIntegrationURL'', ''action_pagerduty_integration_url'', TypeString),
      (''ActionPagerdutyIntegrationURLOverride'', ''action_pagerduty_integration_url_override'', TypeString),
      (''ActionPagerdutyParamCustDetails'', ''action_pagerduty_custom_details'', TypeString),
      (''ActionPagerdutyParamIntKey'', ''action_pagerduty_integration_key'', TypeString),
      (''ActionPagerdutyParamIntKeyOverride'', ''action_pagerduty_integration_key_override'', TypeString),
      (''ActionScriptFilename'', ''action_script_filename'', TypeString),
      (''ActionSnowEventParamAccount'', ''action_snow_event_param_account'', TypeString),
      (''ActionSnowEventParamNode'', ''action_snow_event_param_node'', TypeString),
      (''ActionSnowEventParamType'', ''action_snow_event_param_type'', TypeString),
      (''ActionSnowEventParamResource'', ''action_snow_event_param_resource'', TypeString),
      (''ActionSnowEventParamSeverity'', ''action_snow_event_param_severity'', TypeInt),
      (''ActionSnowEventParamDescription'', ''action_snow_event_param_description'', TypeString),
      (''ActionSnowEventParamCiIdentifier'', ''action_snow_event_param_ci_identifier'', TypeString),
      (''ActionSnowEventParamCustomFields'', ''action_snow_event_param_custom_fields'', TypeString),
      (''ActionSnowEventParamAdditionalInfo'', ''action_snow_event_param_additional_info'', TypeString),
      (''ActionCreateXsoarIncident'', ''action_create_xsoar_incident'', TypeString),
      (''ActionCreateXsoarIncidentParamSendAllServers'', ''action_create_xsoar_incident_param_send_all_servers'', TypeString),
      (''ActionCreateXsoarIncidentParamServerUrl'', ''action_create_xsoar_incident_param_server_url'', TypeString),
      (''ActionCreateXsoarIncidentParamIncidentName'', ''action_create_xsoar_incident_param_incident_name'', TypeString),
      (''ActionCreateXsoarIncidentParamDetails'', ''action_create_xsoar_incident_param_details'', TypeString),
      (''ActionCreateXsoarIncidentParamCustomFields'', ''action_create_xsoar_incident_param_custom_fields'', TypeString),
      (''ActionCreateXsoarIncidentParamSeverity'', ''action_create_xsoar_incident_param_severity'', TypeString),
      (''ActionCreateXsoarIncidentParamOccurred'', ''action_create_xsoar_incident_param_occurred'', TypeString),
      (''ActionCreateXsoarIncidentParamType'', ''action_create_xsoar_incident_param_type'', TypeString),
      (''ActionSlackParamAttachment'', ''action_slack_param_attachment'', TypeString),
      (''ActionSlackParamChannel'', ''action_slack_param_channel'', TypeString),
      (''ActionSlackParamFields'', ''action_slack_param_fields'', TypeString),
      (''ActionSlackParamMessage'', ''action_slack_param_message'', TypeString),
      (''ActionSlackParamWebhookUrlOverride'', ''action_slack_param_webhook_url_override'', TypeString),
      (''ActionJiraServiceDeskParamAccount'', ''action_jira_service_desk_param_account'', TypeString),
      (''ActionJiraServiceDeskParamJiraProject'', ''action_jira_service_desk_param_jira_project'', TypeString),
      (''ActionJiraServiceDeskParamJiraIssueType'', ''action_jira_service_desk_param_jira_issue_type'', TypeString),
      (''ActionJiraServiceDeskParamJiraPriority'', ''action_jira_service_desk_param_jira_priority'', TypeString),
      (''ActionJiraServiceDeskParamJiraCustomfields'', ''action_jira_service_desk_param_jira_customfields'', TypeString),
      (''ActionWebhookParamUrl'', ''action_webhook_param_url'', TypeString),
      (''ActionWebhookEnableAllowlist'', ''action_webhook_enable_allowlist'', TypeInt),
      (''ActionWebhookParamMitreAttackId'', ''action_webhook_param_mitre_attack_id'', TypeString),
      (''ActionWebhookParamDescription'', ''action_webhook_param_description'', TypeString),
      (''ActionWebhookParamFields'', ''action_webhook_param_fields'', TypeString),
      (''ActionWebhookParamTags'', ''action_webhook_param_tags'', TypeString),
      (''ActionWebhookParamAuthor'', ''action_webhook_param_author'', TypeString),
      (''AlertComparator'', ''alert_comparator'', TypeString),
      (''AlertCondition'', ''alert_condition'', TypeString),
      (''AlertDigestMode'', ''alert_digest_mode'', TypeBool),
      (''AlertExpires'', ''alert_expires'', TypeString),
      (''AlertSeverity'', ''alert_severity'', TypeInt),
      (''AlertSuppress'', ''alert_suppress'', TypeBool),
      (''AlertSuppressFields'', ''alert_suppress_fields'', TypeString),
      (''AlertSuppressPeriod'', ''alert_suppress_period'', TypeString),
      (''AlertThreshold'', ''alert_threshold'', TypeString),
      (''AlertTrack'', ''alert_track'', TypeBool),
      (''AlertType'', ''alert_type'', TypeString),
      (''AutoSummarize'', ''auto_summarize'', TypeBool),
      (''AutoSummarizeCommand'', ''auto_summarize_command'', TypeString),
      (''AutoSummarizeCronSchedule'', ''auto_summarize_cron_schedule'', TypeString),
      (''AutoSummarizeDispatchEarliestTime'', ''auto_summarize_dispatch_earliest_time'', TypeString),
      (''AutoSummarizeDispatchLatestTime'', ''auto_summarize_dispatch_latest_time'', TypeString),
      (''AutoSummarizeDispatchTimeFormat'', ''auto_summarize_dispatch_time_format'', TypeString),
      (''AutoSummarizeDispatchTTL'', ''auto_summarize_dispatch_ttl'', TypeString),
      (''AutoSummarizeMaxDisabledBuckets'', ''auto_summarize_max_disabled_buckets'', TypeInt),
      (''AutoSummarizeMaxSummaryRatio'', ''auto_summarize_max_summary_ratio'', TypeFloat),
      (''AutoSummarizeMaxSummarySize'', ''auto_summarize_max_summary_size'', TypeInt),
      (''AutoSummarizeMaxTime'', ''auto_summarize_max_time'', TypeInt),
      (''AutoSummarizeSuspendPeriod'', ''auto_summarize_suspend_period'', TypeString),
      (''AutoSummarizeTimespan'', ''auto_summarize_timespan'', TypeString),
      (''CronSchedule'', ''cron_schedule'', TypeString),
      (''Description'', ''description'', TypeString),
      (''Disabled'', ''disabled'', TypeBool),
      (''DispatchBuckets'', ''dispatch_buckets'', TypeInt),
      (''DispatchEarliestTime'', ''dispatch_earliest_time'', TypeString),
      (''DispatchIndexEarliest'', ''dispatch_index_earliest'', TypeString),
      (''DispatchIndexLatest'', ''dispatch_index_latest'', TypeString),
      (''DispatchIndexedRealtime'', ''dispatch_indexed_realtime'', TypeBool),
      (''DispatchIndexedRealtimeOffset'', ''dispatch_indexed_realtime_offset'', TypeInt),
      (''DispatchIndexedRealtimeMinspan'', ''dispatch_indexed_realtime_minspan'', TypeInt),
      (''DispatchLatestTime'', ''dispatch_latest_time'', TypeString),
      (''DispatchLookups'', ''dispatch_lookups'', TypeBool),
      (''DispatchMaxCount'', ''dispatch_max_count'', TypeInt),
      (''DispatchMaxTime'', ''dispatch_max_time'', TypeInt),
      (''DispatchReduceFreq'', ''dispatch_reduce_freq'', TypeInt),
      (''DispatchRtBackfill'', ''dispatch_rt_backfill'', TypeBool),
      (''DispatchRtMaximumSpan'', ''dispatch_rt_maximum_span'', TypeInt),
      (''DispatchSpawnProcess'', ''dispatch_spawn_process'', TypeBool),
      (''DispatchTimeFormat'', ''dispatch_time_format'', TypeString),
      (''DispatchTTL'', ''dispatch_ttl'', TypeString),
      (''DisplayView'', ''display_view'', TypeString),
      (''IsScheduled'', ''is_scheduled'', TypeBool),
      (''IsVisible'', ''is_visible'', TypeBool),
      (''MaxConcurrent'', ''max_concurrent'', TypeInt),
      (''RealtimeSchedule'', ''realtime_schedule'', TypeBool),
      (''RequestUIDispatchApp'', ''request_ui_dispatch_app'', TypeString),
      (''RequestUIDispatchView'', ''request_ui_dispatch_view'', TypeString),
      (''RestartOnSearchPeerAdd'', ''restart_on_searchpeer_add'', TypeBool),
      (''RunOnStartup'', ''run_on_startup'', TypeBool),
      (''ScheduleWindow'', ''schedule_window'', TypeString),
      (''SchedulePriority'', ''schedule_priority'', TypeString),
      (''Search'', ''search'', TypeString),
      (''VSID'', ''vsid'', TypeString),
      (''WorkloadPool'', ''workload_pool'', TypeString)]"

definition getSavedSearchesConfig :: "'b ResourceData \<Rightarrow> SavedSearchObject" where
  "getSavedSearchesConfig d =
     \<lparr>Actions = normalizeActionsString (d_Get_string d ''actions''),
      ActionWebhook =
        strings_Contains (normalizeActionsString (d_Get_string d ''actions'')) ''webhook'',
      ActionWebhookParamPriority = getCalculatedPriority d,
      ActionJiraServiceDeskParamJiraSummary =
        d_Get_string d ''action_jira_service_desk_param_jira_summary'',
      ActionJiraServiceDeskParamJiraDescription =
        d_Get_string d ''action_jira_service_desk_param_jira_description'',
      Plain = map_of (map (\<lambda>(field, key, t). (field, d_Get d key t)) config_fields)\<rparr>"

section \<open>The lifecycle\<close>

definition getResourceDataSearchACL :: "'b acl_helpers \<Rightarrow> 'b ResourceData \<Rightarrow> ACLObject" where
  "getResourceDataSearchACL h d =
     (case d_GetOk_acl d of
        (r, True) \<Rightarrow> getACLConfig h r
      | (_, False) \<Rightarrow> \<lparr>Owner = ''nobody'', App = ''search'', Sharing = []\<rparr>)"

text \<open>The loop of \<open>getSavedSearchesConfigByName\<close> over the entries of the response.\<close>

fun find_entry :: "string \<Rightarrow> SavedSearchesEntry list \<Rightarrow> SavedSearchesEntry option" where
  "find_entry name [] = None"
| "find_entry name (entry # rest) =
     (if name = FindStringSubmatch_1 (Name entry) then Some entry
      else find_entry name rest)"

text \<open>
  \<open>getSavedSearchesConfigByName\<close>. In the branch for 200 and 201, reading
  \<open>response.Entry\<close> through a \<open>nil\<close> pointer panics; in the other branch, indexing
  \<open>response.Messages[0]\<close> of an empty list panics.
\<close>

definition getSavedSearchesConfigByName ::
    "string \<Rightarrow> Response \<Rightarrow> (SavedSearchesEntry option \<times> error option) go" where
  "getSavedSearchesConfigByName name httpResponse =
     (if StatusCode httpResponse = 200 \<or> StatusCode httpResponse = 201
      then (case Decode_pointer (Body httpResponse) of
              None \<Rightarrow> Panics
            | Some response \<Rightarrow> Returns (find_entry name (Entry response), None))
      else (case Messages (Decode (Body httpResponse)) of
              [] \<Rightarrow> Panics
            | m # _ \<Rightarrow> Returns (None, Some (errors_New (Text m)))))"

text \<open>The \<open>d.Set\<close> calls of \<open>savedSearchesRead\<close> that copy a field of the entry as it is:
  the key, the Go field and the type, in the order of the source, before the Jira summary
  and after the Jira description.\<close>

definition read_fields_1 :: "(string \<times> string \<times> ty) list" where
  "read_fields_1 =
     [(''action_snow_event_param_account'', ''ActionSnowEventParamAccount'', TypeString),
      (''action_snow_event_param_node'', ''ActionSnowEventParamNode'', TypeString),
      (''action_snow_event_param_type'', ''ActionSnowEventParamType'', TypeString),
      (''action_snow_event_param_resource'', ''ActionSnowEventParamResource'', TypeString),
      (''action_snow_event_param_severity'', ''ActionSnowEventParamSeverity'', TypeInt),
      (''action_snow_event_param_description'', ''ActionSnowEventParamDescription'', TypeString),
      (''action_snow_event_param_ci_identifier'', ''ActionSnowEventParamCiIdentifier'', TypeString),
      (''action_snow_event_param_custom_fields'', ''ActionSnowEventParamCustomFields'', TypeString),
      (''action_snow_event_param_additional_info'', ''ActionSnowEventParamAdditionalInfo'', TypeString),
      (''action_email'', ''ActionEmail'', TypeBool),
      (''action_email_auth_password'', ''ActionEmailAuthPassword'', TypeString),
      (''action_email_auth_username'', ''ActionEmailAuthUsername'', TypeString),
      (''action_email_bcc'', ''ActionEmailBCC'', TypeString),
      (''action_email_cc'', ''ActionEmailCC'', TypeString),
      (''action_email_command'', ''ActionEmailCommand'', TypeString),
      (''action_email_format'', ''ActionEmailFormat'', TypeString),
      (''action_email_from'', ''ActionEmailFrom'', TypeString),
      (''action_email_include_results_link'', ''ActionEmailIncludeResultsLink'', TypeInt),
      (''action_email_include_search'', ''ActionEmailIncludeSearch'', TypeInt),
      (''action_email_include_trigger'', ''ActionEmailIncludeTrigger'', TypeInt),
      (''action_email_include_trigger_time'', ''ActionEmailIncludeTriggerTime'', TypeInt),
      (''action_email_include_view_link'', ''ActionEmailIncludeViewLink'', TypeInt),
      (''action_email_inline'', ''ActionEmailInline'', TypeBool),
      (''action_email_mailserver'', ''ActionEmailMailserver'', TypeString),
      (''action_email_max_results'', ''ActionEmailMaxResults'', TypeInt),
      (''action_email_max_time'', ''ActionEmailMaxTime'', TypeString),
      (''action_email_message_alert'', ''ActionEmailMessageAlert'', TypeString),
      (''action_email_message_report'', ''ActionEmailMessageReport'', TypeString),
      (''action_email_pdfview'', ''ActionEmailPDFView'', TypeString),
      (''action_email_preprocess_results'', ''ActionEmailPreprocessResults'', TypeString),
      (''action_email_report_cid_font_list'', ''ActionEmailReportCIDFontList'', TypeString),
      (''action_email_report_include_splunk_logo'', ''ActionEmailReportIncludeSplunkLogo'', TypeBool),
      (''action_email_report_paper_orientation'', ''ActionEmailReportPaperOrientation'', TypeString),
      (''action_email_report_paper_size'', ''ActionEmailReportPaperSize'', TypeString),
      (''action_email_report_server_enabled'', ''ActionEmailReportServerEnabled'', TypeBool),
      (''action_email_report_server_url'', ''ActionEmailReportServerURL'', TypeString),
      (''action_email_send_csv'', ''ActionEmailSendCSV'', TypeInt),
      (''action_email_send_pdf'', ''ActionEmailSendPDF'', TypeBool),
      (''action_email_send_results'', ''ActionEmailSendResults'', TypeBool),
      (''action_email_allow_empty_attachment'', ''ActionEmailAllowEmptyAttachment'', TypeInt),
      (''action_email_subject'', ''ActionEmailSubject'', TypeString),
      (''action_email_to'', ''ActionEmailTo'', TypeString),
      (''action_email_track_alert'', ''ActionEmailTrackAlert'', TypeBool),
      (''action_email_ttl'', ''ActionEmailTTL'', TypeString),
      (''action_email_use_ssl'', ''ActionEmailUseSSL'', TypeBool),
      (''action_email_use_tls'', ''ActionEmailUseTLS'', TypeBool),
      (''action_email_width_sort_columns'', ''ActionEmailWidthSortColumns'', TypeBool),
      (''action_pagerduty_integration_url'', ''ActionPagerdutyIntegrationURL'', TypeString),
      (''action_script'', ''ActionScript'', TypeBool),
      (''action_script_filename'', ''ActionScriptFilename'', TypeString),
      (''action_create_xsoar_incident'', ''ActionCreateXsoarIncident'', TypeString),
      (''action_create_xsoar_incident_param_send_all_servers'', ''ActionCreateXsoarIncidentParamSendAllServers'', TypeString),
      (''action_create_xsoar_incident_param_server_url'', ''ActionCreateXsoarIncidentParamServerUrl'', TypeString),
      (''action_create_xsoar_incident_param_incident_name'', ''ActionCreateXsoarIncidentParamIncidentName'', TypeString),
      (''action_create_xsoar_incident_param_details'', ''ActionCreateXsoarIncidentParamDetails'', TypeString),
      (''action_create_xsoar_incident_param_custom_fields'', ''ActionCreateXsoarIncidentParamCustomFields'', TypeString),
      (''action_create_xsoar_incident_param_severity'', ''ActionCreateXsoarIncidentParamSeverity'', TypeString),
      (''action_create_xsoar_incident_param_occurred'', ''ActionCreateXsoarIncidentParamOccurred'', TypeString),
      (''action_create_xsoar_incident_param_type'', ''ActionCreateXsoarIncidentParamType'', TypeString),
      (''action_slack_param_attachment'', ''ActionSlackParamAttachment'', TypeString),
      (''action_slack_param_channel'', ''ActionSlackParamChannel'', TypeString),
      (''action_slack_param_fields'', ''ActionSlackParamFields'', TypeString),
      (''action_slack_param_message'', ''ActionSlackParamMessage'', TypeString),
      (''action_slack_param_webhook_url_override'', ''ActionSlackParamWebhookUrlOverride'', TypeString),
      (''action_jira_service_desk_param_account'', ''ActionJiraServiceDeskParamAccount'', TypeString),
      (''action_jira_service_desk_param_jira_project'', ''ActionJiraServiceDeskParamJiraProject'', TypeString),
      (''action_jira_service_desk_param_jira_issue_type'', ''ActionJiraServiceDeskParamJiraIssueType'', TypeString)]"

definition read_fields_2 :: "(string \<times> string \<times> ty) list" where
  "read_fields_2 =
     [(''action_jira_service_desk_param_jira_customfields'', ''ActionJiraServiceDeskParamJiraCustomfields'', TypeString),
      (''action_webhook_param_url'', ''ActionWebhookParamUrl'', TypeString),
      (''action_webhook'', ''ActionWebhook'', TypeBool),
      (''action_webhook_enable_allowlist'', ''ActionWebhookEnableAllowlist'', TypeInt),
      (''action_webhook_param_priority'', ''ActionWebhookParamPriority'', TypeInt),
      (''action_webhook_param_mitre_attack_id'', ''ActionWebhookParamMitreAttackId'', TypeString),
      (''action_webhook_param_description'', ''ActionWebhookParamDescription'', TypeString),
      (''action_webhook_param_fields'', ''ActionWebhookParamFields'', TypeString),
      (''action_webhook_param_tags'', ''ActionWebhookParamTags'', TypeString),
      (''action_webhook_param_author'', ''ActionWebhookParamAuthor'', TypeString),
      (''alert_digest_mode'', ''AlertDigestMode'', TypeBool),
      (''alert_expires'', ''AlertExpires'', TypeString),
      (''alert_severity'', ''AlertSeverity'', TypeInt),
      (''alert_suppress'', ''AlertSuppress'', TypeBool),
      (''alert_suppress_fields'', ''AlertSuppressFields'', TypeString),
      (''alert_suppress_period'', ''AlertSuppressPeriod'', TypeString),
      (''alert_track'', ''AlertTrack'', TypeBool),
      (''alert_comparator'', ''AlertComparator'', TypeString),
      (''alert_condition'', ''AlertCondition'', TypeString),
      (''alert_threshold'', ''AlertThreshold'', TypeString),
      (''alert_type'', ''AlertType'', TypeString),
      (''allow_skew'', ''AllowSkew'', TypeString),
      (''auto_summarize'', ''AutoSummarize'', TypeBool),
      (''auto_summarize_command'', ''AutoSummarizeCommand'', TypeString),
      (''auto_summarize_cron_schedule'', ''AutoSummarizeCronSchedule'', TypeString),
      (''auto_summarize_dispatch_earliest_time'', ''AutoSummarizeDispatchEarliestTime'', TypeString),
      (''auto_summarize_dispatch_latest_time'', ''AutoSummarizeDispatchLatestTime'', TypeString),
      (''auto_summarize_dispatch_time_format'', ''AutoSummarizeDispatchTimeFormat'', TypeString),
      (''auto_summarize_dispatch_ttl'', ''AutoSummarizeDispatchTTL'', TypeString),
      (''auto_summarize_max_disabled_buckets'', ''AutoSummarizeMaxDisabledBuckets'', TypeInt),
      (''auto_summarize_max_summary_ratio'', ''AutoSummarizeMaxSummaryRatio'', TypeFloat),
      (''auto_summarize_max_summary_size'', ''AutoSummarizeMaxSummarySize'', TypeInt),
      (''auto_summarize_max_time'', ''AutoSummarizeMaxTime'', TypeInt),
      (''auto_summarize_suspend_period'', ''AutoSummarizeSuspendPeriod'', TypeString),
      (''auto_summarize_timespan'', ''AutoSummarizeTimespan'', TypeString),
      (''cron_schedule'', ''CronSchedule'', TypeString),
      (''description'', ''Description'', TypeString),
      (''disabled'', ''Disabled'', TypeBool),
      (''dispatch_buckets'', ''DispatchBuckets'', TypeInt),
      (''dispatch_earliest_time'', ''DispatchEarliestTime'', TypeString),
      (''dispatch_index_earliest'', ''DispatchIndexEarliest'', TypeString),
      (''dispatch_index_latest'', ''DispatchIndexLatest'', TypeString),
      (''dispatch_indexed_realtime'', ''DispatchIndexedRealtime'', TypeBool),
      (''dispatch_indexed_realtime_offset'', ''DispatchIndexedRealtimeOffset'', TypeInt),
      (''dispatch_indexed_realtime_minspan'', ''DispatchIndexedRealtimeMinspan'', TypeInt),
      (''dispatch_latest_time'', ''DispatchLatestTime'', TypeString),
      (''dispatch_lookups'', ''DispatchLookups'', TypeBool),
      (''dispatch_max_count'', ''DispatchMaxCount'', TypeInt),
      (''dispatch_max_time'', ''DispatchMaxTime'', TypeInt),
      (''dispatch_reduce_freq'', ''DispatchReduceFreq'', TypeInt),
      (''dispatch_rt_backfill'', ''DispatchRtBackfill'', TypeBool),
      (''dispatch_rt_maximum_span'', ''DispatchRtMaximumSpan'', TypeInt),
      (''dispatch_spawn_process'', ''DispatchSpawnProcess'', TypeBool),
      (''dispatch_time_format'', ''DispatchTimeFormat'', TypeString),
      (''dispatch_ttl'', ''DispatchTTL'', TypeString),
      (''display_view'', ''DisplayView'', TypeString),
      (''is_scheduled'', ''IsScheduled'', TypeBool),
      (''is_visible'', ''IsVisible'', TypeBool),
      (''max_concurrent'', ''MaxConcurrent'', TypeInt),
      (''realtime_schedule'', ''RealtimeSchedule'', TypeBool),
      (''request_ui_dispatch_app'', ''RequestUIDispatchApp'', TypeString),
      (''request_ui_dispatch_view'', ''RequestUIDispatchView'', TypeString),
      (''restart_on_searchpeer_add'', ''RestartOnSearchPeerAdd'', TypeBool),
      (''run_on_startup'', ''RunOnStartup'', TypeBool),
      (''schedule_window'', ''ScheduleWindow'', TypeString),
      (''schedule_priority'', ''SchedulePriority'', TypeString),
      (''search'', ''Search'', TypeString),
      (''vsid'', ''VSID'', TypeString),
      (''workload_pool'', ''WorkloadPool'', TypeString)]"

definition set_field :: "SavedSearchObject \<Rightarrow> string \<times> string \<times> ty \<Rightarrow> 'b ResourceData \<Rightarrow> 'b ResourceData" where
  "set_field c = (\<lambda>(key, field, t) d. d_Set d key (field_value c field t))"

definition jira_summary_default :: string where
  "jira_summary_default = ''Splunk Alert: $name$''"

definition jira_description_default :: string where
  "jira_description_default =
     ''The alert condition for '' @ [CHR 0x27] @ ''$name$'' @ [CHR 0x27] @ '' was triggered.''"

text \<open>The writes of \<open>savedSearchesRead\<close> once the entry is found.\<close>

definition read_entry ::
    "'b acl_helpers \<Rightarrow> SavedSearchesEntry \<Rightarrow> 'b ResourceData \<Rightarrow> 'b ResourceData" where
  "read_entry h entry d =
     (let c = Content entry;
          d = d_Set d ''name'' (PString (rd_id d));
          d = d_Set d ''actions'' (PString (normalizeActionsString (Actions c)));
          d = fold (set_field c) read_fields_1 d;
          d = (if ActionJiraServiceDeskParamJiraSummary c \<noteq> jira_summary_default
               then d_Set d ''action_jira_service_desk_param_jira_summary''
                      (PString (ActionJiraServiceDeskParamJiraSummary c))
               else d);
          d = d_Set d ''action_jira_service_desk_param_jira_priority''
                (field_value c ''ActionJiraServiceDeskParamJiraPriority'' TypeString);
          d = (if ActionJiraServiceDeskParamJiraDescription c \<noteq> jira_description_default
               then d_Set d ''action_jira_service_desk_param_jira_description''
                      (PString (ActionJiraServiceDeskParamJiraDescription c))
               else d);
          d = fold (set_field c) read_fields_2 d
      in d_Set_acl d (flattenACL h (ACL entry)))"

definition savedSearchesRead :: "'b acl_helpers \<Rightarrow> Client \<Rightarrow> 'b ResourceData \<Rightarrow> 'b run" where
  "savedSearchesRead h client d =
     (let name = rd_id d;
          aclObject = getResourceDataSearchACL h d;
          c = ReadSavedSearches_call name (Owner aclObject) (App aclObject)
      in case ReadSavedSearches client name (Owner aclObject) (App aclObject) of
           Inl err \<Rightarrow> \<lparr>calls = [c], rd = d, returned = Returns (Some err)\<rparr>
         | Inr resp \<Rightarrow>
             (case getSavedSearchesConfigByName name resp of
                Panics \<Rightarrow> \<lparr>calls = [c], rd = d, returned = Panics\<rparr>
              | Returns (_, Some err) \<Rightarrow> \<lparr>calls = [c], rd = d, returned = Returns (Some err)\<rparr>
              | Returns (None, None) \<Rightarrow>
                  \<lparr>calls = [c], rd = d, returned = Returns (Some (UnableToFind name))\<rparr>
              | Returns (Some entry, None) \<Rightarrow>
                  \<lparr>calls = [c], rd = read_entry h entry d, returned = Returns None\<rparr>))"

definition savedSearchesCreate :: "'b acl_helpers \<Rightarrow> Client \<Rightarrow> 'b ResourceData \<Rightarrow> 'b run" where
  "savedSearchesCreate h client d =
     (let name = d_Get_string d ''name'';
          savedSearchesConfig = getSavedSearchesConfig d;
          aclObject = getResourceDataSearchACL h d
      in and_then
           (remote
              (CreateSavedSearches_call name (Owner aclObject) (App aclObject)
                 savedSearchesConfig)
              (CreateSavedSearches client name (Owner aclObject) (App aclObject)
                 savedSearchesConfig) d)
           (\<lambda>d. and_then
              (if snd (d_GetOk_acl d)
               then remote
                      (UpdateAcl_call (Owner aclObject) (App aclObject) name aclObject
                         ''saved'' ''searches'')
                      (case UpdateAcl client (Owner aclObject) (App aclObject) name aclObject
                              ''saved'' ''searches'' of
                         Some err \<Rightarrow> Some (UpdateAclError err aclObject)
                       | None \<Rightarrow> None) d
               else \<lparr>calls = [], rd = d, returned = Returns None\<rparr>)
              (\<lambda>d. savedSearchesRead h client (d_SetId d name))))"

definition savedSearchesUpdate :: "'b acl_helpers \<Rightarrow> Client \<Rightarrow> 'b ResourceData \<Rightarrow> 'b run" where
  "savedSearchesUpdate h client d =
     (let savedSearchesConfig = getSavedSearchesConfig d;
          aclObject = getACLConfig h (rd_acl d);
          owner = (if Sharing aclObject \<noteq> ''user'' then ''nobody'' else Owner aclObject)
      in and_then
           (remote
              (UpdateSavedSearches_call (rd_id d) owner (App aclObject) savedSearchesConfig)
              (UpdateSavedSearches client (rd_id d) owner (App aclObject)
                 savedSearchesConfig) d)
           (\<lambda>d. and_then
              (remote
                 (UpdateAcl_call owner (App aclObject) (rd_id d) aclObject
                    ''saved'' ''searches'')
                 (UpdateAcl client owner (App aclObject) (rd_id d) aclObject
                    ''saved'' ''searches'') d)
              (\<lambda>d. savedSearchesRead h client d)))"

definition savedSearchesDelete :: "'b acl_helpers \<Rightarrow> Client \<Rightarrow> 'b ResourceData \<Rightarrow> 'b run" where
  "savedSearchesDelete h client d =
     (let aclObject = getACLConfig h (rd_acl d);
          c = DeleteSavedSearches_call (rd_id d) (Owner aclObject) (App aclObject)
      in case DeleteSavedSearches client (rd_id d) (Owner aclObject) (App aclObject) of
           Inl err \<Rightarrow> \<lparr>calls = [c], rd = d, returned = Returns (Some err)\<rparr>
         | Inr resp \<Rightarrow>
             (if StatusCode resp = 200 \<or> StatusCode resp = 201
              then \<lparr>calls = [c], rd = d, returned = Returns None\<rparr>
              else (case Messages (Decode (Body resp)) of
                      [] \<Rightarrow> \<lparr>calls = [c], rd = d, returned = Panics\<rparr>
                    | m # _ \<Rightarrow>
                        \<lparr>calls = [c], rd = d,
                         returned = Returns (Some (errors_New (Text m)))\<rparr>)))"

section \<open>Concrete inputs\<close>

text \<open>Helpers, a client and resource data on which the results below are evaluated. The
  blocks of the example \<open>acl\<close> list are ACL objects themselves.\<close>

definition example_helpers :: "ACLObject acl_helpers" where
  "example_helpers =
     \<lparr>getACLConfig =
        (\<lambda>r. case r of [] \<Rightarrow> \<lparr>Owner = [], App = [], Sharing = []\<rparr> | a # _ \<Rightarrow> a),
      flattenACL = (\<lambda>a. [a])\<rparr>"

definition example_content :: SavedSearchObject where
  "example_content =
     \<lparr>Actions = ''webhook, email'', ActionWebhook = True, ActionWebhookParamPriority = 3,
      ActionJiraServiceDeskParamJiraSummary = ''Splunk Alert: $name$'',
      ActionJiraServiceDeskParamJiraDescription = ''custom text'',
      Plain = Map.empty\<rparr>"

definition example_entry :: "string \<Rightarrow> SavedSearchesEntry" where
  "example_entry name =
     \<lparr>Name = name, ACL = \<lparr>Owner = ''bob'', App = ''myapp'', Sharing = ''user''\<rparr>,
      Content = example_content\<rparr>"

text \<open>A client whose writes succeed and whose reads and deletes answer with \<open>resp\<close>.\<close>

definition example_client :: "Response \<Rightarrow> Client" where
  "example_client resp =
     \<lparr>CreateSavedSearches = (\<lambda>_ _ _ _. None),
      ReadSavedSearches = (\<lambda>_ _ _. Inr resp),
      UpdateSavedSearches = (\<lambda>_ _ _ _. None),
      UpdateAcl = (\<lambda>_ _ _ _ _ _. None),
      DeleteSavedSearches = (\<lambda>_ _ _. Inr resp)\<rparr>"

definition example_data :: "(string \<times> prim) list \<Rightarrow> ACLObject list \<Rightarrow> ACLObject ResourceData" where
  "example_data kvs blocks = \<lparr>rd_id = ''alert'', rd_fields = map_of kvs, rd_acl = blocks\<rparr>"

section \<open>Properties of the normaliser\<close>

lemma trim_range_eq:
  "trim_range i xs = take i xs @ map strings_TrimSpace (drop i xs)"
proof (induction i xs rule: trim_range.induct)
  case (1 i actionList)
  show ?case
  proof (cases "i < length actionList")
    case True
    have "trim_range i actionList =
        trim_range (Suc i) (actionList[i := strings_TrimSpace (actionList ! i)])"
      using True by (subst trim_range.simps) simp
    also have "\<dots> = take i actionList @ strings_TrimSpace (actionList ! i)
        # map strings_TrimSpace (drop (Suc i) actionList)"
      using True by (simp add: "1.IH" take_Suc_conv_app_nth)
    also have "\<dots> = take i actionList @ map strings_TrimSpace (drop i actionList)"
      using True by (simp add: Cons_nth_drop_Suc [symmetric])
    finally show ?thesis .
  next
    case False
    then show ?thesis by (subst trim_range.simps) simp
  qed
qed

lemma clean_range_eq: "clean_range xs acc = acc @ filter (\<lambda>a. a \<noteq> []) xs"
  by (induction xs arbitrary: acc) auto

lemma strip_leading_stop:
  "find (\<lambda>e. e \<noteq> [] \<and> prefix e s) es = None \<Longrightarrow> strip_leading es s = s"
  by (subst strip_leading.simps) simp

lemma strip_leading_step:
  "find (\<lambda>e. e \<noteq> [] \<and> prefix e s) es = Some e \<Longrightarrow>
   strip_leading es s = strip_leading es (drop (length e) s)"
  by (subst strip_leading.simps) simp

lemma strip_leading_done:
  "find (\<lambda>e. e \<noteq> [] \<and> prefix e (strip_leading es s)) es = None"
proof (induction es s rule: strip_leading.induct)
  case (1 es s)
  show ?case
  proof (cases "find (\<lambda>e. e \<noteq> [] \<and> prefix e s) es")
    case None
    then show ?thesis by (simp add: strip_leading_stop)
  next
    case (Some e)
    then show ?thesis using "1.IH" by (simp add: strip_leading_step)
  qed
qed

lemma strip_leading_idem: "strip_leading es (strip_leading es s) = strip_leading es s"
  by (rule strip_leading_stop) (rule strip_leading_done)

lemma strip_leading_suffix: "suffix (strip_leading es s) s"
proof (induction es s rule: strip_leading.induct)
  case (1 es s)
  show ?case
  proof (cases "find (\<lambda>e. e \<noteq> [] \<and> prefix e s) es")
    case None
    then show ?thesis by (simp add: strip_leading_stop)
  next
    case (Some e)
    then have "suffix (strip_leading es s) (drop (length e) s)"
      using "1.IH" by (simp add: strip_leading_step)
    then show ?thesis
      using suffix_drop suffix_order.trans by blast
  qed
qed

lemma strip_leading_Nil [simp]: "strip_leading es [] = []"
  using strip_leading_suffix [of es "[]"] by simp

lemma TrimSpace_Nil [simp]: "strings_TrimSpace [] = []"
  by (simp add: strings_TrimSpace_def)

lemma TrimSpace_prefix_of_stripped:
  "prefix (strings_TrimSpace s) (strip_leading white_space s)"
proof -
  have "suffix (strip_leading (map rev white_space) (rev (strip_leading white_space s)))
      (rev (strip_leading white_space s))"
    by (rule strip_leading_suffix)
  then show ?thesis
    by (simp add: strings_TrimSpace_def suffix_to_prefix)
qed

lemma TrimSpace_set: "set (strings_TrimSpace s) \<subseteq> set s"
proof -
  have "set (strings_TrimSpace s) \<subseteq> set (strip_leading white_space s)"
    using TrimSpace_prefix_of_stripped by (rule set_mono_prefix)
  also have "\<dots> \<subseteq> set s"
    using strip_leading_suffix by (rule set_mono_suffix)
  finally show ?thesis .
qed

lemma TrimSpace_idem: "strings_TrimSpace (strings_TrimSpace s) = strings_TrimSpace s"
proof -
  let ?u = "strings_TrimSpace s"
  have "find (\<lambda>e. e \<noteq> [] \<and> prefix e ?u) white_space = None"
  proof -
    have "\<not> (e \<noteq> [] \<and> prefix e ?u)" if "e \<in> set white_space" for e
    proof
      assume "e \<noteq> [] \<and> prefix e ?u"
      then have "e \<noteq> [] \<and> prefix e (strip_leading white_space s)"
        using TrimSpace_prefix_of_stripped prefix_order.trans by blast
      moreover have "find (\<lambda>e. e \<noteq> [] \<and> prefix e (strip_leading white_space s)) white_space = None"
        by (rule strip_leading_done)
      ultimately show False
        using that by (auto simp: find_None_iff)
    qed
    then show ?thesis by (auto simp: find_None_iff)
  qed
  then have "strip_leading white_space ?u = ?u"
    by (rule strip_leading_stop)
  then have "strings_TrimSpace ?u = rev (strip_leading (map rev white_space) (rev ?u))"
    by (simp add: strings_TrimSpace_def)
  also have "\<dots> = ?u"
    by (simp add: strings_TrimSpace_def strip_leading_idem)
  finally show ?thesis .
qed

lemma strip_leading_ascii_space:
  "set s \<subseteq> ascii_space \<Longrightarrow> strip_leading white_space s = []"
proof (induction white_space s rule: strip_leading.induct)
  case (1 s)
  show ?case
  proof (cases "find (\<lambda>e. e \<noteq> [] \<and> prefix e s) white_space")
    case None
    have "s = []"
    proof (rule ccontr)
      assume "s \<noteq> []"
      then obtain c r where s: "s = c # r" by (cases s) auto
      with "1.prems" have "c \<in> ascii_space" by simp
      then have "[c] \<in> set white_space"
        by (auto simp: ascii_space_def white_space_def)
      with None s show False by (auto simp: find_None_iff)
    qed
    then show ?thesis by simp
  next
    case (Some e)
    have "set (drop (length e) s) \<subseteq> ascii_space"
      using "1.prems" set_drop_subset by fastforce
    then show ?thesis
      using "1.hyps" [OF Some] Some by (simp add: strip_leading_step)
  qed
qed

lemma TrimSpace_ascii_space: "set s \<subseteq> ascii_space \<Longrightarrow> strings_TrimSpace s = []"
  by (simp add: strings_TrimSpace_def strip_leading_ascii_space)

lemma Split_not_Nil: "strings_Split s c \<noteq> []"
  by (induction s) (auto split: list.splits)

lemma Split_no_sep: "p \<in> set (strings_Split s c) \<Longrightarrow> c \<notin> set p"
  by (induction s arbitrary: p) (auto split: if_splits list.splits)

lemma Split_set: "p \<in> set (strings_Split s c) \<Longrightarrow> set p \<subseteq> set s"
proof (induction s arbitrary: p)
  case Nil
  then show ?case by simp
next
  case (Cons x s)
  obtain q qs where q: "strings_Split s c = q # qs"
    using Split_not_Nil [of s c] by (cases "strings_Split s c") auto
  have "set q \<subseteq> set s" and "\<forall>r\<in>set qs. set r \<subseteq> set s"
    using Cons.IH q by auto
  then show ?case
    using Cons.prems q by (auto split: if_splits)
qed

lemma Split_append_sep: "c \<notin> set t \<Longrightarrow> strings_Split (t @ c # r) c = t # strings_Split r c"
  by (induction t) auto

lemma Split_no_sep_id: "c \<notin> set t \<Longrightarrow> strings_Split t c = [t]"
  by (induction t) auto

lemma Split_Join:
  "ts \<noteq> [] \<Longrightarrow> \<forall>t\<in>set ts. c \<notin> set t \<Longrightarrow> strings_Split (strings_Join ts [c]) c = ts"
  by (induction ts "[c]" rule: strings_Join.induct) (auto simp: Split_no_sep_id Split_append_sep)

lemma Join_Split: "strings_Join (strings_Split s c) [c] = s"
proof (induction s)
  case Nil
  then show ?case by simp
next
  case (Cons x s)
  then show ?case
    by (cases "strings_Split s c"; cases "tl (strings_Split s c)") (auto simp: Split_not_Nil)
qed


lemma normalizeActionsString_eq_spec: "normalizeActionsString x = normalize_spec x"
proof (cases "x = []")
  case True
  then show ?thesis
    by (simp add: normalizeActionsString_def normalize_spec_def action_list_def)
next
  case False
  then show ?thesis
    by (simp add: normalizeActionsString_def normalize_spec_def action_list_def
        trim_range_eq clean_range_eq sort_Strings_def)
qed

lemma action_list_member:
  assumes "t \<in> set (action_list x)"
  shows "t \<noteq> []" and "CHR '','' \<notin> set t" and "strings_TrimSpace t = t"
proof -
  from assms obtain p where p: "p \<in> set (strings_Split x CHR '','')"
    and t: "t = strings_TrimSpace p" and ne: "t \<noteq> []"
    by (auto simp: action_list_def)
  show "t \<noteq> []" by (rule ne)
  have "CHR '','' \<notin> set p" using p by (rule Split_no_sep)
  then show "CHR '','' \<notin> set t" using TrimSpace_set [of p] t by auto
  show "strings_TrimSpace t = t" by (simp add: t TrimSpace_idem)
qed

lemma action_list_Join:
  assumes "ts \<noteq> []"
    and "\<forall>t\<in>set ts. t \<noteq> [] \<and> CHR '','' \<notin> set t \<and> strings_TrimSpace t = t"
  shows "action_list (strings_Join ts '','') = ts"
proof -
  have "strings_Split (strings_Join ts '','') CHR '','' = ts"
    using assms by (simp add: Split_Join)
  moreover have "map strings_TrimSpace ts = ts"
    using assms(2) by (simp add: map_idI)
  moreover have "filter (\<lambda>a. a \<noteq> []) ts = ts"
    using assms(2) by (simp add: filter_id_conv)
  ultimately show ?thesis by (simp add: action_list_def)
qed

lemma action_list_Nil [simp]: "action_list [] = []"
  by (simp add: action_list_def)

lemma normalize_spec_idem: "normalize_spec (normalize_spec x) = normalize_spec x"
proof (cases "action_list x = []")
  case True
  then show ?thesis by (simp add: normalize_spec_def)
next
  case False
  let ?ts = "sort (action_list x)"
  have ne: "?ts \<noteq> []"
  proof
    assume "?ts = []"
    then have "set ?ts = {}" by (simp only: set_empty)
    then have "set (action_list x) = {}" by (simp only: set_sort)
    with False show False by simp
  qed
  have props: "\<forall>t\<in>set ?ts. t \<noteq> [] \<and> CHR '','' \<notin> set t \<and> strings_TrimSpace t = t"
  proof
    fix t assume "t \<in> set ?ts"
    then have "t \<in> set (action_list x)" by simp
    from action_list_member [OF this]
    show "t \<noteq> [] \<and> CHR '','' \<notin> set t \<and> strings_TrimSpace t = t" by blast
  qed
  have "action_list (strings_Join ?ts '','') = ?ts"
    using ne props by (rule action_list_Join)
  then show ?thesis
    by (simp add: normalize_spec_def sort_key_id_if_sorted)
qed

lemma Join_not_Nil: "ts \<noteq> [] \<Longrightarrow> \<forall>t\<in>set ts. t \<noteq> [] \<Longrightarrow> strings_Join ts sep \<noteq> []"
  by (induction ts sep rule: strings_Join.induct) auto

lemma Join_tokens_inj:
  assumes ts: "\<forall>t\<in>set ts. t \<noteq> [] \<and> CHR '','' \<notin> set t"
    and us: "\<forall>t\<in>set us. t \<noteq> [] \<and> CHR '','' \<notin> set t"
    and eq: "strings_Join ts '','' = strings_Join us '',''"
  shows "ts = us"
proof -
  have ts1: "\<forall>t\<in>set ts. t \<noteq> []" and ts2: "\<forall>t\<in>set ts. CHR '','' \<notin> set t"
    using ts by blast+
  have us1: "\<forall>t\<in>set us. t \<noteq> []" and us2: "\<forall>t\<in>set us. CHR '','' \<notin> set t"
    using us by blast+
  show ?thesis
  proof (cases "ts = []")
    case True
    then have "strings_Join us '','' = []" using eq by simp
    then have "us = []" using Join_not_Nil [OF _ us1] by blast
    with True show ?thesis by simp
  next
    case False
    then have "strings_Join ts '','' \<noteq> []" using ts1 by (rule Join_not_Nil)
    then have "us \<noteq> []" using eq by auto
    have "ts = strings_Split (strings_Join ts '','') CHR '',''"
      using Split_Join [OF False ts2] by simp
    also have "\<dots> = strings_Split (strings_Join us '','') CHR '',''"
      by (simp only: eq)
    also have "\<dots> = us"
      using Split_Join [OF \<open>us \<noteq> []\<close> us2] by simp
    finally show ?thesis .
  qed
qed

lemma normalize_spec_eq_iff:
  "normalize_spec a = normalize_spec b \<longleftrightarrow> mset (action_list a) = mset (action_list b)"
proof
  assume "normalize_spec a = normalize_spec b"
  then have "sort (action_list a) = sort (action_list b)"
    unfolding normalize_spec_def
    by (intro Join_tokens_inj) (use action_list_member in auto)
  then have "mset (sort (action_list a)) = mset (sort (action_list b))" by simp
  then show "mset (action_list a) = mset (action_list b)" by simp
next
  assume "mset (action_list a) = mset (action_list b)"
  then have "sort (action_list a) = sort (action_list b)"
    by (intro properties_for_sort) simp_all
  then show "normalize_spec a = normalize_spec b"
    by (simp add: normalize_spec_def)
qed

lemma action_list_all_empty:
  "\<forall>p\<in>set (strings_Split x CHR '',''). strings_TrimSpace p = [] \<Longrightarrow> action_list x = []"
  by (auto simp: action_list_def filter_empty_conv)

lemma action_list_commas_spaces:
  assumes "set x \<subseteq> insert CHR '','' ascii_space"
  shows "action_list x = []"
proof (rule action_list_all_empty, rule ballI)
  fix p assume p: "p \<in> set (strings_Split x CHR '','')"
  then have "set p \<subseteq> set x" and "CHR '','' \<notin> set p"
    by (auto dest: Split_set Split_no_sep)
  then have "set p \<subseteq> ascii_space" using assms by auto
  then show "strings_TrimSpace p = []" by (rule TrimSpace_ascii_space)
qed

text \<open>
  Claim C7. For every input, \<open>normalizeActionsString\<close> computes what the contract says:
  the comma-separated pieces, trimmed, without the empty ones, sorted ascending and joined
  with commas. The empty input, an input all of whose pieces trim to nothing, and so an
  input of commas and white space only, give the empty string. The function is
  idempotent, and \<open>suppressActionsDiff\<close> holds of two texts exactly when they have the
  same trimmed non-empty pieces with the same multiplicities, whatever their order and
  the white space around them.
\<close>

theorem normalizeActionsString_contract:
  "normalizeActionsString x = normalize_spec x
   \<and> normalizeActionsString [] = []
   \<and> ((\<forall>p\<in>set (strings_Split x CHR '',''). strings_TrimSpace p = []) \<longrightarrow>
        normalizeActionsString x = [])
   \<and> (set x \<subseteq> insert CHR '','' ascii_space \<longrightarrow> normalizeActionsString x = [])
   \<and> normalizeActionsString (normalizeActionsString x) = normalizeActionsString x
   \<and> (suppressActionsDiff a b \<longleftrightarrow> mset (action_list a) = mset (action_list b))"
proof (intro conjI impI)
  show "normalizeActionsString x = normalize_spec x"
    by (rule normalizeActionsString_eq_spec)
  show "normalizeActionsString [] = []"
    by (simp add: normalizeActionsString_def)
  show "normalizeActionsString x = []"
    if "\<forall>p\<in>set (strings_Split x CHR '',''). strings_TrimSpace p = []"
    using that by (simp add: normalizeActionsString_eq_spec normalize_spec_def action_list_all_empty)
  show "normalizeActionsString x = []" if "set x \<subseteq> insert CHR '','' ascii_space"
    using that by (simp add: normalizeActionsString_eq_spec normalize_spec_def action_list_commas_spaces)
  show "normalizeActionsString (normalizeActionsString x) = normalizeActionsString x"
    by (simp add: normalizeActionsString_eq_spec normalize_spec_idem)
  show "suppressActionsDiff a b \<longleftrightarrow> mset (action_list a) = mset (action_list b)"
    by (simp add: suppressActionsDiff_def normalizeActionsString_eq_spec normalize_spec_eq_iff)
qed

lemma TrimSpace_eval:
  "strings_TrimSpace '' '' = []" "strings_TrimSpace [CHR 0x09] = []"
  "strings_TrimSpace '' a'' = ''a''" "strings_TrimSpace ''b'' = ''b''"
  "strings_TrimSpace ''a '' = ''a''" "strings_TrimSpace ''a'' = ''a''"
  by (simp_all add: strings_TrimSpace_def strip_leading.simps white_space_def)

theorem normalizeActionsString_contract_witness:
  "normalizeActionsString '' ,'' = normalize_spec '' ,''
   \<and> normalizeActionsString [] = []
   \<and> map strings_TrimSpace (strings_Split '' ,'' CHR '','') = [[], []]
   \<and> set '' ,'' \<subseteq> insert CHR '','' ascii_space
   \<and> normalizeActionsString '' ,'' = []
   \<and> normalizeActionsString (normalizeActionsString '' ,'') = normalizeActionsString '' ,''
   \<and> suppressActionsDiff ''b, a'' ''a ,b''
   \<and> mset (action_list ''b, a'') = mset (action_list ''a ,b'')"
proof -
  have 0: "map strings_TrimSpace (strings_Split '' ,'' CHR '','') = [[], []]"
    by (simp add: TrimSpace_eval)
  have 1: "\<forall>p\<in>set (strings_Split '' ,'' CHR '',''). strings_TrimSpace p = []"
    by (simp add: TrimSpace_eval)
  have 2: "set '' ,'' \<subseteq> insert CHR '','' ascii_space"
    by (simp add: ascii_space_def)
  have 3: "mset (action_list ''b, a'') = mset (action_list ''a ,b'')"
    by (simp add: action_list_def TrimSpace_eval)
  show ?thesis
    using normalizeActionsString_contract [of "'' ,''" "''b, a''" "''a ,b''"] 0 1 2 3 by blast
qed

text \<open>Repeated actions are kept: the normaliser sorts, it does not remove duplicates.\<close>

lemma normalizeActionsString_examples:
  "normalizeActionsString ''b, a,a'' = ''a,a,b''"
  "normalizeActionsString ''webhook, email'' = ''email,webhook''"
  by (simp_all add: normalizeActionsString_eq_spec normalize_spec_def action_list_def
      strings_TrimSpace_def strip_leading.simps white_space_def)

section \<open>Properties of the webhook priority\<close>

lemma calculateWebhookPriority_table:
  "calculateWebhookPriority ''Critical'' ''High'' = 4"
  "calculateWebhookPriority ''Critical'' ''Medium'' = 3"
  "calculateWebhookPriority ''Critical'' ''Low'' = 2"
  "calculateWebhookPriority ''High'' ''High'' = 3"
  "calculateWebhookPriority ''High'' ''Medium'' = 3"
  "calculateWebhookPriority ''High'' ''Low'' = 2"
  "calculateWebhookPriority ''Medium'' ''High'' = 2"
  "calculateWebhookPriority ''Medium'' ''Medium'' = 2"
  "calculateWebhookPriority ''Medium'' ''Low'' = 1"
  "calculateWebhookPriority ''Low'' precision = 1"
  by (simp_all add: calculateWebhookPriority_def)

lemma calculateWebhookPriority_range:
  "1 \<le> calculateWebhookPriority severity precision \<and>
   calculateWebhookPriority severity precision \<le> 4"
  by (simp add: calculateWebhookPriority_def)

text \<open>
  Claim C1: the override \<open>action_webhook_param_priority\<close> is returned whenever it is
  present, an explicit zero included, for which the result is 0. The comments of
  \<open>getCalculatedPriority\<close> say the same (``returns either the manually set priority or
  auto-calculated one'', ``If priority is explicitly set, use it''), and the code does
  not do it: with the override set to 0, severity \<open>Critical\<close> and precision \<open>High\<close>, it
  returns the derived priority 4, since \<open>d.GetOk\<close> reports a zero value as not set.
\<close>

theorem getCalculatedPriority_explicit_zero:
  "rd_fields (example_data [(''action_webhook_param_priority'', PInt 0),
       (''severity'', PString ''Critical''), (''precision'', PString ''High'')] [])
     ''action_webhook_param_priority'' = Some (PInt 0)
   \<and> getCalculatedPriority (example_data [(''action_webhook_param_priority'', PInt 0),
       (''severity'', PString ''Critical''), (''precision'', PString ''High'')] []) = 4"
  by (simp add: example_data_def getCalculatedPriority_def d_GetOk_int_def d_Get_int_def
      d_Get_string_def calculateWebhookPriority_def)

text \<open>
  What the code computes on every input: the override whenever it is present and not
  zero; the priority derived from severity and precision, or 1 when either of the two is
  empty, when the override is absent or zero.
\<close>

lemma getCalculatedPriority_override:
  "(rd_fields d ''action_webhook_param_priority'' = Some (PInt p) \<and> p \<noteq> 0 \<longrightarrow>
      getCalculatedPriority d = p)
   \<and> (rd_fields d ''action_webhook_param_priority'' = None \<or>
      rd_fields d ''action_webhook_param_priority'' = Some (PInt 0) \<longrightarrow>
      getCalculatedPriority d =
        (if d_Get_string d ''severity'' \<noteq> [] \<and> d_Get_string d ''precision'' \<noteq> []
         then calculateWebhookPriority (d_Get_string d ''severity'') (d_Get_string d ''precision'')
         else 1))"
  by (auto simp: getCalculatedPriority_def d_GetOk_int_def d_Get_int_def Let_def)

lemma getCalculatedPriority_override_examples:
  "getCalculatedPriority (example_data [(''action_webhook_param_priority'', PInt 3),
       (''severity'', PString ''Critical''), (''precision'', PString ''High'')] []) = 3
   \<and> getCalculatedPriority (example_data
       [(''severity'', PString ''Critical''), (''precision'', PString ''Low'')] []) = 2
   \<and> getCalculatedPriority (example_data [(''severity'', PString ''Critical'')] []) = 1"
proof -
  have "getCalculatedPriority (example_data [(''action_webhook_param_priority'', PInt 3),
       (''severity'', PString ''Critical''), (''precision'', PString ''High'')] []) = 3"
    using getCalculatedPriority_override
      [of "example_data [(''action_webhook_param_priority'', PInt 3),
         (''severity'', PString ''Critical''), (''precision'', PString ''High'')] []" 3]
    by (simp add: example_data_def)
  moreover have "getCalculatedPriority (example_data
       [(''severity'', PString ''Critical''), (''precision'', PString ''Low'')] []) = 2"
    using getCalculatedPriority_override
      [of "example_data [(''severity'', PString ''Critical''), (''precision'', PString ''Low'')] []" 0]
    by (simp add: example_data_def d_Get_string_def calculateWebhookPriority_def)
  moreover have "getCalculatedPriority (example_data [(''severity'', PString ''Critical'')] []) = 1"
    using getCalculatedPriority_override
      [of "example_data [(''severity'', PString ''Critical'')] []" 0]
    by (simp add: example_data_def d_Get_string_def)
  ultimately show ?thesis by blast
qed

section \<open>Properties of the schema upgrade\<close>

lemma ParseBool_value:
  "fst (strconv_ParseBool s) \<longleftrightarrow> s \<in> {''1'', ''t'', ''T'', ''TRUE'', ''true'', ''True''}"
  by (simp add: strconv_ParseBool_def)

text \<open>
  Claim C5 as it is stated fails at the text \<open>auto\<close>: the upgrade returns no error, and
  the field becomes \<open>false\<close>.
\<close>

theorem upgrade_auto_counterexample:
  "resourceAlertTrackStateUpgradeV0 [''alert_track'' \<mapsto> PString ''auto''] =
     Returns ([''alert_track'' \<mapsto> PBool False], None)"
  by (simp add: resourceAlertTrackStateUpgradeV0_def strconv_ParseBool_def)

text \<open>
  Claim C5, amended. The upgrade from schema version 0 to 1 replaces a string
  \<open>alert_track\<close> by a boolean: \<open>true\<close> exactly for the texts that
  \<open>strconv.ParseBool\<close> reads as true, \<open>false\<close> for every other string, \<open>auto\<close>
  among them, since the error of the conversion is dropped. The upgrade never returns an
  error.
\<close>

theorem upgrade_parses_and_never_fails:
  "(rawState ''alert_track'' = Some (PString s) \<longrightarrow>
      resourceAlertTrackStateUpgradeV0 rawState =
        Returns (rawState(''alert_track'' \<mapsto>
          PBool (s \<in> {''1'', ''t'', ''T'', ''TRUE'', ''true'', ''True''})), None))
   \<and> resourceAlertTrackStateUpgradeV0 rawState \<noteq> Returns (state', Some err)"
  by (auto simp: resourceAlertTrackStateUpgradeV0_def ParseBool_value
      split: option.splits prim.splits)

theorem upgrade_parses_and_never_fails_witness:
  "resourceAlertTrackStateUpgradeV0 [''alert_track'' \<mapsto> PString ''true''] =
     Returns ([''alert_track'' \<mapsto> PBool True], None)
   \<and> resourceAlertTrackStateUpgradeV0 [''alert_track'' \<mapsto> PString ''false''] =
     Returns ([''alert_track'' \<mapsto> PBool False], None)"
  using upgrade_parses_and_never_fails [of "[''alert_track'' \<mapsto> PString ''true'']" "''true''"]
    upgrade_parses_and_never_fails [of "[''alert_track'' \<mapsto> PString ''false'']" "''false''"]
  by simp

text \<open>Without the field, or with a value that is no string, the type assertion panics.\<close>

lemma upgrade_panics:
  "resourceAlertTrackStateUpgradeV0 Map.empty = Panics"
  "resourceAlertTrackStateUpgradeV0 [''alert_track'' \<mapsto> PBool True] = Panics"
  by (simp_all add: resourceAlertTrackStateUpgradeV0_def)

section \<open>The webhook flag\<close>









section \<open>The lookup by name\<close>

lemma find_entry_find:
  "find_entry name es = find (\<lambda>e. FindStringSubmatch_1 (Name e) = name) es"
  by (induction es) auto

lemma takeWhile_no_newline:
  "CHR 0x0A \<notin> set s \<Longrightarrow> takeWhile (\<lambda>c. c \<noteq> CHR 0x0A) s = s"
  by (induction s) auto

lemma find_cong_set: "(\<And>x. x \<in> set xs \<Longrightarrow> P x = Q x) \<Longrightarrow> find P xs = find Q xs"
  by (induction xs) auto

text \<open>
  Claim C4 as it is stated fails for names with a line feed, and for a 2xx status other
  than 200 and 201. An entry named \<open>a\<close>, line feed, \<open>b\<close> is selected for the requested
  name \<open>a\<close>, which it does not equal; the same entry is not found under its own name; and
  with status 204 the entries are not looked at.
\<close>

theorem lookup_newline_counterexample:
  "Name (example_entry (''a'' @ [CHR 0x0A] @ ''b'')) \<noteq> ''a''
   \<and> getSavedSearchesConfigByName ''a''
        \<lparr>StatusCode = 200,
         Body = JSON \<lparr>Entry = [example_entry (''a'' @ [CHR 0x0A] @ ''b'')], Messages = []\<rparr>\<rparr>
      = Returns (Some (example_entry (''a'' @ [CHR 0x0A] @ ''b'')), None)
   \<and> getSavedSearchesConfigByName (''a'' @ [CHR 0x0A] @ ''b'')
        \<lparr>StatusCode = 200,
         Body = JSON \<lparr>Entry = [example_entry (''a'' @ [CHR 0x0A] @ ''b'')], Messages = []\<rparr>\<rparr>
      = Returns (None, None)
   \<and> getSavedSearchesConfigByName ''a''
        \<lparr>StatusCode = 204, Body = JSON \<lparr>Entry = [example_entry ''a''], Messages = []\<rparr>\<rparr>
      = Panics"
  by (simp add: getSavedSearchesConfigByName_def Decode_def Decode_pointer_def
      FindStringSubmatch_1_def example_entry_def)

lemma getSavedSearchesConfigByName_ok:
  assumes "StatusCode r = 200 \<or> StatusCode r = 201" and "Body r \<noteq> JSONNull"
  shows "getSavedSearchesConfigByName name r =
     Returns (find (\<lambda>e. takeWhile (\<lambda>c. c \<noteq> CHR 0x0A) (Name e) = name)
       (Entry (Decode (Body r))), None)"
  using assms
  by (auto simp: getSavedSearchesConfigByName_def find_entry_find FindStringSubmatch_1_def
      Decode_pointer_def split: body.splits)

text \<open>
  A body that is the JSON value \<open>null\<close> makes the branch for 200 and 201 panic, and
  \<open>savedSearchesRead\<close> with it.
\<close>

lemma getSavedSearchesConfigByName_null:
  assumes "StatusCode r = 200 \<or> StatusCode r = 201" and "Body r = JSONNull"
  shows "getSavedSearchesConfigByName name r = Panics"
  using assms by (auto simp: getSavedSearchesConfigByName_def Decode_pointer_def)

lemma savedSearchesRead_null:
  assumes "ReadSavedSearches client (rd_id d) (Owner (getResourceDataSearchACL h d))
      (App (getResourceDataSearchACL h d)) = Inr r"
    and "StatusCode r = 200 \<or> StatusCode r = 201" and "Body r = JSONNull"
  shows "returned (savedSearchesRead h client d) = Panics"
  using assms(1) getSavedSearchesConfigByName_null [OF assms(2,3), of "rd_id d"]
  by (simp add: savedSearchesRead_def Let_def)

lemma savedSearchesRead_ok:
  assumes "ReadSavedSearches client (rd_id d) (Owner (getResourceDataSearchACL h d))
      (App (getResourceDataSearchACL h d)) = Inr r"
    and "getSavedSearchesConfigByName (rd_id d) r = Returns (found, None)"
  shows "returned (savedSearchesRead h client d) =
      (case found of None \<Rightarrow> Returns (Some (UnableToFind (rd_id d))) | Some e \<Rightarrow> Returns None)"
    and "rd (savedSearchesRead h client d) =
      (case found of None \<Rightarrow> d | Some e \<Rightarrow> read_entry h e d)"
  using assms by (auto simp: savedSearchesRead_def Let_def split: option.splits)

text \<open>
  Claim C4, amended. For a response with status 200 or 201 whose body is not the JSON
  value \<open>null\<close>, the lookup selects the first entry whose name, cut at its first line
  feed, equals the requested name; the requested name is compared as a plain string.
  When no entry name holds a line feed, this is the first entry whose name equals the
  requested name exactly. \<open>savedSearchesRead\<close> fails with the not-found error, leaving
  the resource data as it was, when there is no such entry, and reads the selected entry
  otherwise.
\<close>

theorem lookup_by_first_line:
  "((StatusCode r = 200 \<or> StatusCode r = 201) \<and> Body r \<noteq> JSONNull \<longrightarrow>
      getSavedSearchesConfigByName name r =
        Returns (find (\<lambda>e. takeWhile (\<lambda>c. c \<noteq> CHR 0x0A) (Name e) = name)
          (Entry (Decode (Body r))), None))
   \<and> ((StatusCode r = 200 \<or> StatusCode r = 201) \<and> Body r \<noteq> JSONNull \<and>
       (\<forall>e\<in>set (Entry (Decode (Body r))). CHR 0x0A \<notin> set (Name e)) \<longrightarrow>
      getSavedSearchesConfigByName name r =
        Returns (find (\<lambda>e. Name e = name) (Entry (Decode (Body r))), None))
   \<and> ((StatusCode r = 200 \<or> StatusCode r = 201) \<and> Body r \<noteq> JSONNull \<and>
       ReadSavedSearches client (rd_id d) (Owner (getResourceDataSearchACL h d))
         (App (getResourceDataSearchACL h d)) = Inr r \<longrightarrow>
      (case find (\<lambda>e. takeWhile (\<lambda>c. c \<noteq> CHR 0x0A) (Name e) = rd_id d)
               (Entry (Decode (Body r))) of
         None \<Rightarrow> returned (savedSearchesRead h client d) =
                   Returns (Some (UnableToFind (rd_id d)))
                 \<and> rd (savedSearchesRead h client d) = d
       | Some e \<Rightarrow> returned (savedSearchesRead h client d) = Returns None
                 \<and> rd (savedSearchesRead h client d) = read_entry h e d))"
proof (intro conjI impI)
  show "getSavedSearchesConfigByName name r =
        Returns (find (\<lambda>e. takeWhile (\<lambda>c. c \<noteq> CHR 0x0A) (Name e) = name)
          (Entry (Decode (Body r))), None)"
    if "(StatusCode r = 200 \<or> StatusCode r = 201) \<and> Body r \<noteq> JSONNull"
    using that by (intro getSavedSearchesConfigByName_ok) blast+
  show "getSavedSearchesConfigByName name r =
        Returns (find (\<lambda>e. Name e = name) (Entry (Decode (Body r))), None)"
    if h: "(StatusCode r = 200 \<or> StatusCode r = 201) \<and> Body r \<noteq> JSONNull \<and>
       (\<forall>e\<in>set (Entry (Decode (Body r))). CHR 0x0A \<notin> set (Name e))"
  proof -
    from h have ok: "StatusCode r = 200 \<or> StatusCode r = 201" and nn: "Body r \<noteq> JSONNull"
      and lf: "\<forall>e\<in>set (Entry (Decode (Body r))). CHR 0x0A \<notin> set (Name e)"
      by blast+
    have "find (\<lambda>e. takeWhile (\<lambda>c. c \<noteq> CHR 0x0A) (Name e) = name) (Entry (Decode (Body r)))
        = find (\<lambda>e. Name e = name) (Entry (Decode (Body r)))"
      using lf by (intro find_cong_set) (simp add: takeWhile_no_newline)
    then show ?thesis
      by (simp add: getSavedSearchesConfigByName_ok [OF ok nn])
  qed
  show "case find (\<lambda>e. takeWhile (\<lambda>c. c \<noteq> CHR 0x0A) (Name e) = rd_id d)
               (Entry (Decode (Body r))) of
         None \<Rightarrow> returned (savedSearchesRead h client d) =
                   Returns (Some (UnableToFind (rd_id d)))
                 \<and> rd (savedSearchesRead h client d) = d
       | Some e \<Rightarrow> returned (savedSearchesRead h client d) = Returns None
                 \<and> rd (savedSearchesRead h client d) = read_entry h e d"
    if h: "(StatusCode r = 200 \<or> StatusCode r = 201) \<and> Body r \<noteq> JSONNull \<and>
       ReadSavedSearches client (rd_id d) (Owner (getResourceDataSearchACL h d))
         (App (getResourceDataSearchACL h d)) = Inr r"
  proof -
    from h have ok: "StatusCode r = 200 \<or> StatusCode r = 201" and nn: "Body r \<noteq> JSONNull"
      and rd: "ReadSavedSearches client (rd_id d) (Owner (getResourceDataSearchACL h d))
         (App (getResourceDataSearchACL h d)) = Inr r"
      by blast+
    show ?thesis
      using savedSearchesRead_ok [OF rd getSavedSearchesConfigByName_ok [OF ok nn]]
      by (simp split: option.splits)
  qed
qed

theorem lookup_by_first_line_witness:
  "getSavedSearchesConfigByName ''alert''
      \<lparr>StatusCode = 200,
       Body = JSON \<lparr>Entry = [example_entry ''alert2'', example_entry ''alert''], Messages = []\<rparr>\<rparr>
     = Returns (Some (example_entry ''alert''), None)
   \<and> returned (savedSearchesRead example_helpers
        (example_client \<lparr>StatusCode = 200,
           Body = JSON \<lparr>Entry = [example_entry ''alert2'', example_entry ''alert''],
             Messages = []\<rparr>\<rparr>)
        (example_data [] [])) = Returns None
   \<and> returned (savedSearchesRead example_helpers
        (example_client \<lparr>StatusCode = 201,
           Body = JSON \<lparr>Entry = [example_entry ''alert2'', example_entry ''al''],
             Messages = []\<rparr>\<rparr>)
        (example_data [] [])) = Returns (Some (UnableToFind ''alert''))"
proof -
  let ?r = "\<lparr>StatusCode = 200,
       Body = JSON \<lparr>Entry = [example_entry ''alert2'', example_entry ''alert''], Messages = []\<rparr>\<rparr>"
  let ?r' = "\<lparr>StatusCode = 201,
       Body = JSON \<lparr>Entry = [example_entry ''alert2'', example_entry ''al''], Messages = []\<rparr>\<rparr>"
  let ?d = "example_data [] [] :: ACLObject ResourceData"
  have "getSavedSearchesConfigByName ''alert'' ?r = Returns (Some (example_entry ''alert''), None)"
    using lookup_by_first_line [of ?r "''alert''" "example_client ?r" ?d example_helpers]
    by (simp add: Decode_def example_entry_def)
  moreover have "returned (savedSearchesRead example_helpers (example_client ?r) ?d) = Returns None"
    using lookup_by_first_line [of ?r "''alert''" "example_client ?r" ?d example_helpers]
    by (simp add: Decode_def example_entry_def example_client_def example_data_def)
  moreover have "returned (savedSearchesRead example_helpers (example_client ?r') ?d)
      = Returns (Some (UnableToFind ''alert''))"
    using lookup_by_first_line [of ?r' "''alert''" "example_client ?r'" ?d example_helpers]
    by (simp add: Decode_def example_entry_def example_client_def example_data_def)
  ultimately show ?thesis by blast
qed

section \<open>The fields with a default\<close>

text \<open>The diff suppressor of a field with a default: an observed default against an unset
  desired value is no difference; against a desired value it is one.\<close>

lemma suppressDefault_default:
  "suppressDefault D D []" "x \<noteq> [] \<Longrightarrow> \<not> suppressDefault D D x"
  by (simp_all add: suppressDefault_def)

lemma fold_set_field_other:
  "key \<notin> fst ` set fs \<Longrightarrow> rd_fields (fold (set_field c) fs d) key = rd_fields d key"
  by (induction fs arbitrary: d) (auto simp: set_field_def d_Set_def)

lemma jira_summary_not_copied:
  "''action_jira_service_desk_param_jira_summary'' \<notin> fst ` set read_fields_1"
  "''action_jira_service_desk_param_jira_summary'' \<notin> fst ` set read_fields_2"
  by (simp_all add: read_fields_1_def read_fields_2_def)

lemma jira_description_not_copied:
  "''action_jira_service_desk_param_jira_description'' \<notin> fst ` set read_fields_1"
  "''action_jira_service_desk_param_jira_description'' \<notin> fst ` set read_fields_2"
  by (simp_all add: read_fields_1_def read_fields_2_def)

lemma read_entry_jira_summary:
  "rd_fields (read_entry h entry d) ''action_jira_service_desk_param_jira_summary'' =
     (if ActionJiraServiceDeskParamJiraSummary (Content entry) = ''Splunk Alert: $name$''
      then rd_fields d ''action_jira_service_desk_param_jira_summary''
      else Some (PString (ActionJiraServiceDeskParamJiraSummary (Content entry))))"
  by (simp add: read_entry_def Let_def d_Set_acl_def fold_set_field_other
      jira_summary_not_copied d_Set_def jira_summary_default_def)

lemma read_entry_jira_description:
  "rd_fields (read_entry h entry d) ''action_jira_service_desk_param_jira_description'' =
     (if ActionJiraServiceDeskParamJiraDescription (Content entry) =
         ''The alert condition for '' @ [CHR 0x27] @ ''$name$'' @ [CHR 0x27] @ '' was triggered.''
      then rd_fields d ''action_jira_service_desk_param_jira_description''
      else Some (PString (ActionJiraServiceDeskParamJiraDescription (Content entry))))"
  by (simp add: read_entry_def Let_def d_Set_acl_def fold_set_field_other
      jira_description_not_copied d_Set_def jira_description_default_def)

text \<open>
  Claim C8. When \<open>savedSearchesRead\<close> finds the entry: if the Jira summary of the entry
  equals \<open>Splunk Alert: $name$\<close>, the summary field keeps what it held before the read
  (nothing is written, so an unset field stays unset), and otherwise it holds the
  observed summary; likewise for the Jira description and its default text.
\<close>

theorem read_leaves_default_unset:
  "ReadSavedSearches client (rd_id d) (Owner (getResourceDataSearchACL h d))
       (App (getResourceDataSearchACL h d)) = Inr r
   \<and> getSavedSearchesConfigByName (rd_id d) r = Returns (Some entry, None) \<longrightarrow>
   returned (savedSearchesRead h client d) = Returns None
   \<and> rd_fields (rd (savedSearchesRead h client d)) ''action_jira_service_desk_param_jira_summary'' =
       (if ActionJiraServiceDeskParamJiraSummary (Content entry) = ''Splunk Alert: $name$''
        then rd_fields d ''action_jira_service_desk_param_jira_summary''
        else Some (PString (ActionJiraServiceDeskParamJiraSummary (Content entry))))
   \<and> rd_fields (rd (savedSearchesRead h client d))
         ''action_jira_service_desk_param_jira_description'' =
       (if ActionJiraServiceDeskParamJiraDescription (Content entry) =
           ''The alert condition for '' @ [CHR 0x27] @ ''$name$'' @ [CHR 0x27] @ '' was triggered.''
        then rd_fields d ''action_jira_service_desk_param_jira_description''
        else Some (PString (ActionJiraServiceDeskParamJiraDescription (Content entry))))"
proof (intro impI, elim conjE)
  assume rd: "ReadSavedSearches client (rd_id d) (Owner (getResourceDataSearchACL h d))
       (App (getResourceDataSearchACL h d)) = Inr r"
    and found: "getSavedSearchesConfigByName (rd_id d) r = Returns (Some entry, None)"
  have 1: "returned (savedSearchesRead h client d) = Returns None"
    and 2: "rd (savedSearchesRead h client d) = read_entry h entry d"
    using savedSearchesRead_ok [OF rd found] by simp_all
  show "returned (savedSearchesRead h client d) = Returns None
   \<and> rd_fields (rd (savedSearchesRead h client d)) ''action_jira_service_desk_param_jira_summary'' =
       (if ActionJiraServiceDeskParamJiraSummary (Content entry) = ''Splunk Alert: $name$''
        then rd_fields d ''action_jira_service_desk_param_jira_summary''
        else Some (PString (ActionJiraServiceDeskParamJiraSummary (Content entry))))
   \<and> rd_fields (rd (savedSearchesRead h client d))
         ''action_jira_service_desk_param_jira_description'' =
       (if ActionJiraServiceDeskParamJiraDescription (Content entry) =
           ''The alert condition for '' @ [CHR 0x27] @ ''$name$'' @ [CHR 0x27] @ '' was triggered.''
        then rd_fields d ''action_jira_service_desk_param_jira_description''
        else Some (PString (ActionJiraServiceDeskParamJiraDescription (Content entry))))"
    unfolding 2 by (intro conjI 1 read_entry_jira_summary read_entry_jira_description)
qed

theorem read_leaves_default_unset_witness:
  "rd_fields (example_data [] [] :: ACLObject ResourceData)
       ''action_jira_service_desk_param_jira_summary'' = None
   \<and> ActionJiraServiceDeskParamJiraSummary (Content (example_entry ''alert'')) =
       ''Splunk Alert: $name$''
   \<and> returned (savedSearchesRead example_helpers
        (example_client \<lparr>StatusCode = 200,
           Body = JSON \<lparr>Entry = [example_entry ''alert''], Messages = []\<rparr>\<rparr>)
        (example_data [] [])) = Returns None
   \<and> rd_fields (rd (savedSearchesRead example_helpers
        (example_client \<lparr>StatusCode = 200,
           Body = JSON \<lparr>Entry = [example_entry ''alert''], Messages = []\<rparr>\<rparr>)
        (example_data [] []))) ''action_jira_service_desk_param_jira_summary'' = None
   \<and> rd_fields (rd (savedSearchesRead example_helpers
        (example_client \<lparr>StatusCode = 200,
           Body = JSON \<lparr>Entry = [example_entry ''alert''], Messages = []\<rparr>\<rparr>)
        (example_data [] []))) ''action_jira_service_desk_param_jira_description'' =
       Some (PString ''custom text'')"
proof -
  let ?r = "\<lparr>StatusCode = 200,
           Body = JSON \<lparr>Entry = [example_entry ''alert''], Messages = []\<rparr>\<rparr>"
  let ?d = "example_data [] [] :: ACLObject ResourceData"
  have a: "ReadSavedSearches (example_client ?r) (rd_id ?d)
       (Owner (getResourceDataSearchACL example_helpers ?d))
       (App (getResourceDataSearchACL example_helpers ?d)) = Inr ?r"
    by (simp add: example_client_def)
  have b: "getSavedSearchesConfigByName (rd_id ?d) ?r = Returns (Some (example_entry ''alert''), None)"
    by (simp add: getSavedSearchesConfigByName_def Decode_def Decode_pointer_def
        example_data_def FindStringSubmatch_1_def example_entry_def)
  have c: "Content (example_entry ''alert'') = example_content"
    by (simp add: example_entry_def)
  show ?thesis
    using read_leaves_default_unset [of "example_client ?r" ?d example_helpers ?r
        "example_entry ''alert''"] a b
    by (simp add: c example_content_def) (simp add: example_data_def)
qed

section \<open>The remote calls of the lifecycle\<close>

lemma savedSearchesRead_calls:
  "calls (savedSearchesRead h client d) =
     [ReadSavedSearches_call (rd_id d) (Owner (getResourceDataSearchACL h d))
        (App (getResourceDataSearchACL h d))]"
  by (simp add: savedSearchesRead_def Let_def
      split: sum.splits go.splits prod.splits option.splits)

lemma getResourceDataSearchACL_SetId [simp]:
  "getResourceDataSearchACL h (d_SetId d v) = getResourceDataSearchACL h d"
  by (simp add: getResourceDataSearchACL_def d_GetOk_acl_def d_SetId_def)

lemma rd_id_SetId [simp]: "rd_id (d_SetId d v) = v"
  by (simp add: d_SetId_def)

lemma getResourceDataSearchACL_cases:
  "getResourceDataSearchACL h d =
     (if rd_acl d = [] then \<lparr>Owner = ''nobody'', App = ''search'', Sharing = []\<rparr>
      else getACLConfig h (rd_acl d))"
  by (simp add: getResourceDataSearchACL_def d_GetOk_acl_def)

lemma savedSearchesCreate_calls:
  "calls (savedSearchesCreate h client d) =
     (let name = d_Get_string d ''name'';
          config = getSavedSearchesConfig d;
          scope = getResourceDataSearchACL h d
      in CreateSavedSearches_call name (Owner scope) (App scope) config #
         (case CreateSavedSearches client name (Owner scope) (App scope) config of
            Some err \<Rightarrow> []
          | None \<Rightarrow>
              (if rd_acl d \<noteq> []
               then UpdateAcl_call (Owner scope) (App scope) name scope ''saved'' ''searches'' #
                    (case UpdateAcl client (Owner scope) (App scope) name scope
                            ''saved'' ''searches'' of
                       Some err \<Rightarrow> []
                     | None \<Rightarrow> [ReadSavedSearches_call name (Owner scope) (App scope)])
               else [ReadSavedSearches_call name (Owner scope) (App scope)])))"
  by (simp add: savedSearchesCreate_def Let_def and_then_def remote_def savedSearchesRead_calls
      d_GetOk_acl_def split: option.splits)

lemma savedSearchesUpdate_calls:
  "calls (savedSearchesUpdate h client d) =
     (let config = getSavedSearchesConfig d;
          acl = getACLConfig h (rd_acl d);
          owner = (if Sharing acl \<noteq> ''user'' then ''nobody'' else Owner acl);
          scope = getResourceDataSearchACL h d
      in UpdateSavedSearches_call (rd_id d) owner (App acl) config #
         (case UpdateSavedSearches client (rd_id d) owner (App acl) config of
            Some err \<Rightarrow> []
          | None \<Rightarrow>
              UpdateAcl_call owner (App acl) (rd_id d) acl ''saved'' ''searches'' #
              (case UpdateAcl client owner (App acl) (rd_id d) acl ''saved'' ''searches'' of
                 Some err \<Rightarrow> []
               | None \<Rightarrow> [ReadSavedSearches_call (rd_id d) (Owner scope) (App scope)])))"
  by (simp add: savedSearchesUpdate_def Let_def and_then_def remote_def savedSearchesRead_calls
      split: option.splits)

text \<open>
  Claim C2. The first call of \<open>savedSearchesCreate\<close> creates the entity under the
  resolved scope: owner \<open>nobody\<close> and app \<open>search\<close> when no \<open>acl\<close> block was supplied,
  the requested scope otherwise. Without an \<open>acl\<close> block no call updates the
  permissions. With an \<open>acl\<close> block, once the entity is created, the second call updates
  the permissions of the entity of that name under the requested scope, and it is the
  only such call. When the creation fails, nothing else is called.
\<close>

theorem create_then_permissions:
  "let name = d_Get_string d ''name'';
       config = getSavedSearchesConfig d;
       scope = getResourceDataSearchACL h d;
       requested = getACLConfig h (rd_acl d);
       run = savedSearchesCreate h client d
   in (\<exists>rest. calls run = CreateSavedSearches_call name (Owner scope) (App scope) config # rest)
      \<and> (rd_acl d = [] \<longrightarrow>
            Owner scope = ''nobody'' \<and> App scope = ''search''
            \<and> filter is_UpdateAcl (calls run) = [])
      \<and> (rd_acl d \<noteq> [] \<longrightarrow> scope = requested)
      \<and> (rd_acl d \<noteq> [] \<and>
          CreateSavedSearches client name (Owner scope) (App scope) config = None \<longrightarrow>
            (\<exists>rest. calls run =
               [CreateSavedSearches_call name (Owner requested) (App requested) config,
                UpdateAcl_call (Owner requested) (App requested) name requested
                  ''saved'' ''searches''] @ rest
               \<and> filter is_UpdateAcl rest = []))
      \<and> (CreateSavedSearches client name (Owner scope) (App scope) config \<noteq> None \<longrightarrow>
            calls run = [CreateSavedSearches_call name (Owner scope) (App scope) config])"
proof -
  let ?name = "d_Get_string d ''name''"
  let ?config = "getSavedSearchesConfig d"
  let ?scope = "getResourceDataSearchACL h d"
  let ?requested = "getACLConfig h (rd_acl d)"
  let ?run = "savedSearchesCreate h client d"
  have first: "\<exists>rest. calls ?run =
      CreateSavedSearches_call ?name (Owner ?scope) (App ?scope) ?config # rest"
    by (simp add: savedSearchesCreate_calls Let_def)
  have without: "Owner ?scope = ''nobody'' \<and> App ?scope = ''search'' \<and>
      filter is_UpdateAcl (calls ?run) = []"
    if "rd_acl d = []"
    using that
    by (simp add: savedSearchesCreate_calls Let_def getResourceDataSearchACL_cases
        split: option.splits)
  have scope: "?scope = ?requested" if "rd_acl d \<noteq> []"
    using that by (simp add: getResourceDataSearchACL_cases)
  have following: "\<exists>rest. calls ?run =
      [CreateSavedSearches_call ?name (Owner ?requested) (App ?requested) ?config,
       UpdateAcl_call (Owner ?requested) (App ?requested) ?name ?requested
         ''saved'' ''searches''] @ rest
      \<and> filter is_UpdateAcl rest = []"
    if "rd_acl d \<noteq> [] \<and>
      CreateSavedSearches client ?name (Owner ?scope) (App ?scope) ?config = None"
  proof -
    from that have acl: "rd_acl d \<noteq> []" by blast
    then have eq: "?scope = ?requested" by (rule scope)
    from that have "CreateSavedSearches client ?name (Owner ?requested) (App ?requested)
        ?config = None"
      unfolding eq by blast
    then show ?thesis
      using acl by (simp add: savedSearchesCreate_calls Let_def eq split: option.splits)
  qed
  have failed: "calls ?run =
      [CreateSavedSearches_call ?name (Owner ?scope) (App ?scope) ?config]"
    if "CreateSavedSearches client ?name (Owner ?scope) (App ?scope) ?config \<noteq> None"
    using that by (auto simp: savedSearchesCreate_calls Let_def)
  show ?thesis
    unfolding Let_def using first without scope following failed by blast
qed

text \<open>
  Claim C3. \<open>savedSearchesUpdate\<close> takes as owner \<open>nobody\<close> when the requested sharing
  is not \<open>user\<close>, and the requested owner otherwise. Its first call updates the entity
  under that owner; when that call succeeds, the next one updates the permissions under
  the same owner; and no update call of the run names another owner.
\<close>

theorem update_under_effective_owner:
  "let acl = getACLConfig h (rd_acl d);
       owner = (if Sharing acl \<noteq> ''user'' then ''nobody'' else Owner acl);
       config = getSavedSearchesConfig d;
       run = savedSearchesUpdate h client d
   in (\<exists>rest. calls run = UpdateSavedSearches_call (rd_id d) owner (App acl) config # rest)
      \<and> (UpdateSavedSearches client (rd_id d) owner (App acl) config = None \<longrightarrow>
           (\<exists>rest. calls run =
              UpdateSavedSearches_call (rd_id d) owner (App acl) config #
              UpdateAcl_call owner (App acl) (rd_id d) acl ''saved'' ''searches'' # rest))
      \<and> (\<forall>c\<in>set (calls run). update_owner c = None \<or> update_owner c = Some owner)"
  by (auto simp: Let_def savedSearchesUpdate_calls split: option.splits)

text \<open>
  What \<open>savedSearchesDelete\<close> does with a response: it returns no error exactly when the
  status is 200 or 201, whatever the body; for another status and a decoded body with a
  first message, the error it returns carries the text of that message.
\<close>

lemma delete_status:
  "DeleteSavedSearches client (rd_id d) (Owner (getACLConfig h (rd_acl d)))
       (App (getACLConfig h (rd_acl d))) = Inr resp \<longrightarrow>
   (returned (savedSearchesDelete h client d) = Returns None \<longleftrightarrow>
      StatusCode resp = 200 \<or> StatusCode resp = 201)
   \<and> (StatusCode resp \<noteq> 200 \<and> StatusCode resp \<noteq> 201 \<and>
       Messages (Decode (Body resp)) = m # ms \<longrightarrow>
      returned (savedSearchesDelete h client d) = Returns (Some (errors_New (Text m))))"
  by (auto simp: savedSearchesDelete_def Let_def split: list.splits)

text \<open>
  Claim C10. For a status other than 200 and 201, the lookup of the read path and
  \<open>savedSearchesDelete\<close> panic exactly when the decoded body holds no message: both
  index \<open>Messages[0]\<close> without a check. A body that is empty, does not decode or is the
  value \<open>null\<close> leaves the message list empty, so it panics as well.
\<close>

theorem error_branches_need_a_message:
  "StatusCode resp \<noteq> 200 \<and> StatusCode resp \<noteq> 201 \<longrightarrow>
   (getSavedSearchesConfigByName name resp = Panics \<longleftrightarrow> Messages (Decode (Body resp)) = [])
   \<and> (Body resp = NoJSON \<or> Body resp = JSONNull \<longrightarrow>
        getSavedSearchesConfigByName name resp = Panics)
   \<and> (ReadSavedSearches client (rd_id d) (Owner (getResourceDataSearchACL h d))
         (App (getResourceDataSearchACL h d)) = Inr resp \<longrightarrow>
       (returned (savedSearchesRead h client d) = Panics \<longleftrightarrow>
          Messages (Decode (Body resp)) = []))
   \<and> (DeleteSavedSearches client (rd_id d) (Owner (getACLConfig h (rd_acl d)))
         (App (getACLConfig h (rd_acl d))) = Inr resp \<longrightarrow>
       (returned (savedSearchesDelete h client d) = Panics \<longleftrightarrow>
          Messages (Decode (Body resp)) = [])
       \<and> (Body resp = NoJSON \<or> Body resp = JSONNull \<longrightarrow>
            returned (savedSearchesDelete h client d) = Panics))"
  by (auto simp: getSavedSearchesConfigByName_def savedSearchesRead_def savedSearchesDelete_def
      Let_def Decode_def split: list.splits option.splits)

theorem create_then_permissions_witness:
  "Owner (getResourceDataSearchACL example_helpers
      (example_data [(''name'', PString ''alert'')] [])) = ''nobody''
   \<and> App (getResourceDataSearchACL example_helpers
      (example_data [(''name'', PString ''alert'')] [])) = ''search''
   \<and> filter is_UpdateAcl (calls (savedSearchesCreate example_helpers
        (example_client \<lparr>StatusCode = 200,
           Body = JSON \<lparr>Entry = [example_entry ''alert''], Messages = []\<rparr>\<rparr>)
        (example_data [(''name'', PString ''alert'')] []))) = []
   \<and> take 2 (calls (savedSearchesCreate example_helpers
        (example_client \<lparr>StatusCode = 200,
           Body = JSON \<lparr>Entry = [example_entry ''alert''], Messages = []\<rparr>\<rparr>)
        (example_data [(''name'', PString ''alert'')]
           [\<lparr>Owner = ''bob'', App = ''myapp'', Sharing = ''user''\<rparr>])))
      = [CreateSavedSearches_call ''alert'' ''bob'' ''myapp''
           (getSavedSearchesConfig (example_data [(''name'', PString ''alert'')]
              [\<lparr>Owner = ''bob'', App = ''myapp'', Sharing = ''user''\<rparr>])),
         UpdateAcl_call ''bob'' ''myapp'' ''alert''
           \<lparr>Owner = ''bob'', App = ''myapp'', Sharing = ''user''\<rparr> ''saved'' ''searches'']
   \<and> filter is_UpdateAcl (calls (savedSearchesCreate example_helpers
        (example_client \<lparr>StatusCode = 200,
           Body = JSON \<lparr>Entry = [example_entry ''alert''], Messages = []\<rparr>\<rparr>)
        (example_data [(''name'', PString ''alert'')]
           [\<lparr>Owner = ''bob'', App = ''myapp'', Sharing = ''user''\<rparr>])))
      = [UpdateAcl_call ''bob'' ''myapp'' ''alert''
           \<lparr>Owner = ''bob'', App = ''myapp'', Sharing = ''user''\<rparr> ''saved'' ''searches'']"
proof -
  let ?client = "example_client \<lparr>StatusCode = 200,
           Body = JSON \<lparr>Entry = [example_entry ''alert''], Messages = []\<rparr>\<rparr>"
  let ?d1 = "example_data [(''name'', PString ''alert'')] [] :: ACLObject ResourceData"
  let ?d2 = "example_data [(''name'', PString ''alert'')]
           [\<lparr>Owner = ''bob'', App = ''myapp'', Sharing = ''user''\<rparr>]"
  have n: "d_Get_string ?d1 ''name'' = ''alert''" "d_Get_string ?d2 ''name'' = ''alert''"
    by (simp_all add: example_data_def d_Get_string_def)
  have a: "rd_acl ?d1 = []"
    "rd_acl ?d2 = [\<lparr>Owner = ''bob'', App = ''myapp'', Sharing = ''user''\<rparr>]"
    by (simp_all add: example_data_def)
  have g: "getACLConfig example_helpers [\<lparr>Owner = ''bob'', App = ''myapp'', Sharing = ''user''\<rparr>]
      = \<lparr>Owner = ''bob'', App = ''myapp'', Sharing = ''user''\<rparr>"
    by (simp add: example_helpers_def)
  have c: "CreateSavedSearches ?client name owner app config = None" for name owner app config
    by (simp add: example_client_def)
  have 1: "Owner (getResourceDataSearchACL example_helpers ?d1) = ''nobody''
      \<and> App (getResourceDataSearchACL example_helpers ?d1) = ''search''
      \<and> filter is_UpdateAcl (calls (savedSearchesCreate example_helpers ?client ?d1)) = []"
    using create_then_permissions [of ?d1 example_helpers ?client] a(1)
    unfolding Let_def by blast
  have "\<exists>rest. calls (savedSearchesCreate example_helpers ?client ?d2) =
      [CreateSavedSearches_call ''alert'' ''bob'' ''myapp'' (getSavedSearchesConfig ?d2),
       UpdateAcl_call ''bob'' ''myapp'' ''alert''
         \<lparr>Owner = ''bob'', App = ''myapp'', Sharing = ''user''\<rparr> ''saved'' ''searches''] @ rest
      \<and> filter is_UpdateAcl rest = []"
    using create_then_permissions [of ?d2 example_helpers ?client]
    unfolding Let_def n a g by (simp add: c)
  then obtain rest where
    "calls (savedSearchesCreate example_helpers ?client ?d2) =
      [CreateSavedSearches_call ''alert'' ''bob'' ''myapp'' (getSavedSearchesConfig ?d2),
       UpdateAcl_call ''bob'' ''myapp'' ''alert''
         \<lparr>Owner = ''bob'', App = ''myapp'', Sharing = ''user''\<rparr> ''saved'' ''searches''] @ rest"
    and "filter is_UpdateAcl rest = []"
    by blast
  then have 2: "take 2 (calls (savedSearchesCreate example_helpers ?client ?d2)) =
      [CreateSavedSearches_call ''alert'' ''bob'' ''myapp'' (getSavedSearchesConfig ?d2),
       UpdateAcl_call ''bob'' ''myapp'' ''alert''
         \<lparr>Owner = ''bob'', App = ''myapp'', Sharing = ''user''\<rparr> ''saved'' ''searches'']"
    and 3: "filter is_UpdateAcl (calls (savedSearchesCreate example_helpers ?client ?d2)) =
      [UpdateAcl_call ''bob'' ''myapp'' ''alert''
         \<lparr>Owner = ''bob'', App = ''myapp'', Sharing = ''user''\<rparr> ''saved'' ''searches'']"
    by simp_all
  from 1 2 3 show ?thesis by blast
qed

theorem update_under_effective_owner_witness:
  "take 2 (calls (savedSearchesUpdate example_helpers
        (example_client \<lparr>StatusCode = 200,
           Body = JSON \<lparr>Entry = [example_entry ''alert''], Messages = []\<rparr>\<rparr>)
        (example_data [] [\<lparr>Owner = ''carol'', App = ''search'', Sharing = ''global''\<rparr>])))
     = [UpdateSavedSearches_call ''alert'' ''nobody'' ''search''
          (getSavedSearchesConfig
             (example_data [] [\<lparr>Owner = ''carol'', App = ''search'', Sharing = ''global''\<rparr>])),
        UpdateAcl_call ''nobody'' ''search'' ''alert''
          \<lparr>Owner = ''carol'', App = ''search'', Sharing = ''global''\<rparr> ''saved'' ''searches'']
   \<and> list_all (\<lambda>c. update_owner c \<noteq> Some ''carol'')
        (calls (savedSearchesUpdate example_helpers
          (example_client \<lparr>StatusCode = 200,
             Body = JSON \<lparr>Entry = [example_entry ''alert''], Messages = []\<rparr>\<rparr>)
          (example_data [] [\<lparr>Owner = ''carol'', App = ''search'', Sharing = ''global''\<rparr>])))
   \<and> take 2 (calls (savedSearchesUpdate example_helpers
        (example_client \<lparr>StatusCode = 200,
           Body = JSON \<lparr>Entry = [example_entry ''alert''], Messages = []\<rparr>\<rparr>)
        (example_data [] [\<lparr>Owner = ''alice'', App = ''search'', Sharing = ''user''\<rparr>])))
     = [UpdateSavedSearches_call ''alert'' ''alice'' ''search''
          (getSavedSearchesConfig
             (example_data [] [\<lparr>Owner = ''alice'', App = ''search'', Sharing = ''user''\<rparr>])),
        UpdateAcl_call ''alice'' ''search'' ''alert''
          \<lparr>Owner = ''alice'', App = ''search'', Sharing = ''user''\<rparr> ''saved'' ''searches'']"
proof -
  let ?client = "example_client \<lparr>StatusCode = 200,
           Body = JSON \<lparr>Entry = [example_entry ''alert''], Messages = []\<rparr>\<rparr>"
  let ?carol = "\<lparr>Owner = ''carol'', App = ''search'', Sharing = ''global''\<rparr>"
  let ?alice = "\<lparr>Owner = ''alice'', App = ''search'', Sharing = ''user''\<rparr>"
  let ?d3 = "example_data [] [?carol]"
  let ?d4 = "example_data [] [?alice]"
  have i: "rd_id ?d3 = ''alert''" "rd_id ?d4 = ''alert''"
    by (simp_all add: example_data_def)
  have a: "getACLConfig example_helpers (rd_acl ?d3) = ?carol"
    "getACLConfig example_helpers (rd_acl ?d4) = ?alice"
    by (simp_all add: example_data_def example_helpers_def)
  have c: "UpdateSavedSearches ?client name owner app config = None" for name owner app config
    by (simp add: example_client_def)
  have 3: "(\<exists>rest. calls (savedSearchesUpdate example_helpers ?client ?d3) =
        UpdateSavedSearches_call ''alert'' ''nobody'' ''search'' (getSavedSearchesConfig ?d3) #
        UpdateAcl_call ''nobody'' ''search'' ''alert'' ?carol ''saved'' ''searches'' # rest)
      \<and> (\<forall>c\<in>set (calls (savedSearchesUpdate example_helpers ?client ?d3)).
            update_owner c = None \<or> update_owner c = Some ''nobody'')"
    using update_under_effective_owner [of example_helpers ?d3 ?client]
    unfolding Let_def a i by (simp add: c)
  have 4: "\<exists>rest. calls (savedSearchesUpdate example_helpers ?client ?d4) =
        UpdateSavedSearches_call ''alert'' ''alice'' ''search'' (getSavedSearchesConfig ?d4) #
        UpdateAcl_call ''alice'' ''search'' ''alert'' ?alice ''saved'' ''searches'' # rest"
    using update_under_effective_owner [of example_helpers ?d4 ?client]
    unfolding Let_def a i by (simp add: c)
  from 3 have 5: "list_all (\<lambda>c. update_owner c \<noteq> Some ''carol'')
      (calls (savedSearchesUpdate example_helpers ?client ?d3))"
    by (auto simp: list_all_iff)
  from 3 4 5 show ?thesis by auto
qed

lemma delete_status_examples:
  "returned (savedSearchesDelete example_helpers
      (example_client \<lparr>StatusCode = 404,
         Body = JSON \<lparr>Entry = [], Messages = [\<lparr>Text = ''no such entity''\<rparr>]\<rparr>\<rparr>)
      (example_data [] [])) = Returns (Some (errors_New ''no such entity''))
   \<and> returned (savedSearchesDelete example_helpers
      (example_client \<lparr>StatusCode = 200, Body = NoJSON\<rparr>) (example_data [] [])) = Returns None"
proof -
  let ?r1 = "\<lparr>StatusCode = 404,
         Body = JSON \<lparr>Entry = [], Messages = [\<lparr>Text = ''no such entity''\<rparr>]\<rparr>\<rparr>"
  let ?r2 = "\<lparr>StatusCode = 200, Body = NoJSON\<rparr>"
  let ?d = "example_data [] [] :: ACLObject ResourceData"
  have c: "DeleteSavedSearches (example_client r) name owner app = Inr r" for r name owner app
    by (simp add: example_client_def)
  have "returned (savedSearchesDelete example_helpers (example_client ?r1) ?d)
      = Returns (Some (errors_New ''no such entity''))"
    using delete_status [of "example_client ?r1" ?d example_helpers ?r1
        "\<lparr>Text = ''no such entity''\<rparr>" "[]"]
    by (simp add: c Decode_def)
  moreover have "returned (savedSearchesDelete example_helpers (example_client ?r2) ?d)
      = Returns None"
    using delete_status [of "example_client ?r2" ?d example_helpers ?r2]
    by (simp add: c)
  ultimately show ?thesis by blast
qed

text \<open>
  Claim C9: for a status other than 200 and 201, \<open>savedSearchesDelete\<close> decodes the body
  and returns an error with the text of the first message. The code indexes
  \<open>Messages[0]\<close> after dropping the decoder's error, so where the claim has an error
  returned, a response with status 500 and an empty body, or one whose \<open>messages\<close> array
  is empty, makes it panic.
\<close>

theorem delete_without_message_panics:
  "returned (savedSearchesDelete example_helpers
      (example_client \<lparr>StatusCode = 500, Body = NoJSON\<rparr>) (example_data [] [])) = Panics
   \<and> returned (savedSearchesDelete example_helpers
      (example_client \<lparr>StatusCode = 500, Body = JSON \<lparr>Entry = [], Messages = []\<rparr>\<rparr>)
      (example_data [] [])) = Panics"
  by (simp add: savedSearchesDelete_def Let_def example_client_def Decode_def)

theorem error_branches_need_a_message_witness:
  "getSavedSearchesConfigByName ''alert'' \<lparr>StatusCode = 500, Body = NoJSON\<rparr> = Panics
   \<and> returned (savedSearchesRead example_helpers
        (example_client \<lparr>StatusCode = 500, Body = NoJSON\<rparr>) (example_data [] [])) = Panics
   \<and> returned (savedSearchesDelete example_helpers
        (example_client \<lparr>StatusCode = 500, Body = NoJSON\<rparr>) (example_data [] [])) = Panics
   \<and> getSavedSearchesConfigByName ''alert''
        \<lparr>StatusCode = 404, Body = JSON \<lparr>Entry = [], Messages = [\<lparr>Text = ''gone''\<rparr>]\<rparr>\<rparr>
      \<noteq> Panics"
proof -
  let ?r = "\<lparr>StatusCode = 500, Body = NoJSON\<rparr>"
  let ?r' = "\<lparr>StatusCode = 404, Body = JSON \<lparr>Entry = [], Messages = [\<lparr>Text = ''gone''\<rparr>]\<rparr>\<rparr>"
  let ?d = "example_data [] [] :: ACLObject ResourceData"
  have c: "DeleteSavedSearches (example_client r) name owner app = Inr r"
    "ReadSavedSearches (example_client r) name owner app = Inr r" for r name owner app
    by (simp_all add: example_client_def)
  have "getSavedSearchesConfigByName ''alert'' ?r = Panics
      \<and> returned (savedSearchesRead example_helpers (example_client ?r) ?d) = Panics
      \<and> returned (savedSearchesDelete example_helpers (example_client ?r) ?d) = Panics"
    using error_branches_need_a_message [of ?r "''alert''" "example_client ?r" ?d example_helpers]
    by (simp add: c Decode_def)
  moreover have "getSavedSearchesConfigByName ''alert'' ?r' \<noteq> Panics"
    using error_branches_need_a_message [of ?r' "''alert''" "example_client ?r'" ?d example_helpers]
    by (simp add: Decode_def)
  ultimately show ?thesis by blast
qed

end
